theory Spec2Isabelle
  imports Complex_Main "HOL-Library.Sublist"
begin

section \<open>Python values and built-ins used by the scripts\<close>

text \<open>
  Exceptions are values. \<open>ValueError\<close>, \<open>TypeError\<close> and \<open>KeyError\<close> are the ones the
  built-ins called by the scripts raise themselves; \<open>External\<close> stands for any exception
  raised inside \<open>urllib\<close> or the \<open>whisper\<close> library (network error, HTTP 404,
  unsupported audio, out of memory, ...).
\<close>

datatype exn = ValueError | TypeError | KeyError string | External string

text \<open>
  A \<open>dict\<close> is an association list in insertion order, which is the order in which
  Python iterates over it. \<open>d.get(k)\<close> yields \<open>None\<close> for a missing key, \<open>d[k]\<close>
  raises \<open>KeyError\<close>.
\<close>

type_synonym ('k, 'v) dict = "('k \<times> 'v) list"

definition dict_keys :: "('k, 'v) dict \<Rightarrow> 'k list" where
  "dict_keys d = map fst d"

definition dict_get :: "('k, 'v) dict \<Rightarrow> 'k \<Rightarrow> 'v option" where
  "dict_get d k = map_of d k"

definition dict_getitem :: "(string, 'v) dict \<Rightarrow> string \<Rightarrow> exn + 'v" where
  "dict_getitem d k = (case map_of d k of None \<Rightarrow> Inl (KeyError k) | Some v \<Rightarrow> Inr v)"

text \<open>
  \<open>a > b\<close> on the results of \<open>dict.get\<close>: comparing \<open>None\<close> with anything raises
  \<open>TypeError\<close>.
\<close>

fun py_gt :: "('b::linorder) option \<Rightarrow> 'b option \<Rightarrow> exn + bool" where
  "py_gt (Some a) (Some b) = Inr (a > b)"
| "py_gt _ _ = Inl TypeError"

text \<open>
  The built-in \<open>max(iterable, key=f)\<close>: the first item becomes the running maximum, a
  later item replaces it only when its key is strictly greater, and an empty iterable
  raises \<open>ValueError\<close>.
\<close>

fun max_loop :: "('a \<Rightarrow> ('b::linorder) option) \<Rightarrow> 'a \<Rightarrow> 'b option \<Rightarrow> 'a list \<Rightarrow> exn + 'a" where
  "max_loop key maxitem maxval [] = Inr maxitem"
| "max_loop key maxitem maxval (item # rest) =
     (case py_gt (key item) maxval of
        Inl e \<Rightarrow> Inl e
      | Inr True \<Rightarrow> max_loop key item (key item) rest
      | Inr False \<Rightarrow> max_loop key maxitem maxval rest)"

definition py_max :: "'a list \<Rightarrow> ('a \<Rightarrow> ('b::linorder) option) \<Rightarrow> exn + 'a" where
  "py_max iterable key =
     (case iterable of
        [] \<Rightarrow> Inl ValueError
      | item # rest \<Rightarrow> max_loop key item (key item) rest)"

section \<open>The external collaborators\<close>

text \<open>
  Values that cross the library boundary. Keyword arguments are the list of
  \<open>name=value\<close> pairs written at the call. \<open>DecodingOptions\<close> and \<open>DecodingResult\<close> are
  the library's dataclasses, with the fields the scripts set or read. The result of
  \<open>model.transcribe\<close> is a \<open>dict\<close> whose values are strings or lists of segments; what a
  segment is (type \<open>'s\<close>) belongs to the library.
\<close>

datatype kwval = KwBool bool | KwStr string

record decoding_options =
  opt_language :: "string option"
  opt_task :: string

record decoding_result =
  dr_language :: string
  dr_tokens :: "int list"
  dr_text :: string

datatype 's pyval = PyStr string | PySegments "'s list"

datatype 's printed =
    PrintedStr string
  | PrintedResult "(string, 's pyval) dict"
  | PrintedVal "'s pyval"
  | PrintedDecoding decoding_result

text \<open>
  The library and the network are opaque: every entry point is a function of the
  outside world \<open>'w\<close> (network, file system, devices, console) that returns the new
  world and either a value or the exception it raised. Model handles (\<open>'m\<close>), audio
  arrays (\<open>'a\<close>), tensors (\<open>'x\<close>), devices (\<open>'d\<close>) and probabilities (\<open>'p\<close>) are whatever
  the library makes them. \<open>model.device\<close> is an attribute read. An \<open>import\<close> statement
  runs the top-level code of the named module, which is outside the scripts as well and
  may raise (the module may be missing).
\<close>

record ('w, 'm, 'a, 'x, 'd, 'p, 's) library =
  import_module :: "string \<Rightarrow> 'w \<Rightarrow> (exn + unit) \<times> 'w"
  urlretrieve :: "string \<Rightarrow> string \<Rightarrow> 'w \<Rightarrow> (exn + unit) \<times> 'w"
  load_model :: "string \<Rightarrow> 'w \<Rightarrow> (exn + 'm) \<times> 'w"
  transcribe :: "'m \<Rightarrow> string \<Rightarrow> (string \<times> kwval) list \<Rightarrow> 'w
                   \<Rightarrow> (exn + (string, 's pyval) dict) \<times> 'w"
  load_audio :: "string \<Rightarrow> 'w \<Rightarrow> (exn + 'a) \<times> 'w"
  pad_or_trim :: "'a \<Rightarrow> 'w \<Rightarrow> (exn + 'a) \<times> 'w"
  log_mel_spectrogram :: "'a \<Rightarrow> 'w \<Rightarrow> (exn + 'x) \<times> 'w"
  device :: "'m \<Rightarrow> 'd"
  tensor_to :: "'x \<Rightarrow> 'd \<Rightarrow> 'w \<Rightarrow> (exn + 'x) \<times> 'w"
  detect_language :: "'m \<Rightarrow> 'x \<Rightarrow> 'w \<Rightarrow> (exn + 'x \<times> (string, 'p) dict) \<times> 'w"
  decode :: "'m \<Rightarrow> 'x \<Rightarrow> decoding_options \<Rightarrow> 'w \<Rightarrow> (exn + decoding_result) \<times> 'w"
  print :: "'s printed \<Rightarrow> 'w \<Rightarrow> (exn + unit) \<times> 'w"

text \<open>
  Every call that leaves the script is recorded, with its arguments and with what came
  back, in the order in which it happened.
\<close>

datatype ('m, 'a, 'x, 'd, 's) call =
    Import string
  | UrlRetrieve string string
  | LoadModel string
  | Transcribe 'm string "(string \<times> kwval) list"
  | LoadAudio string
  | PadOrTrim 'a
  | LogMelSpectrogram 'a
  | TensorTo 'x 'd
  | DetectLanguage 'm 'x
  | DecodingOptions "string option" string
  | Decode 'm 'x decoding_options
  | Print "'s printed"

datatype ('m, 'a, 'x, 'p, 's) ret =
    RNone
  | RModel 'm
  | RResult "(string, 's pyval) dict"
  | RAudio 'a
  | RTensor 'x
  | RLanguage 'x "(string, 'p) dict"
  | ROptions decoding_options
  | RDecoding decoding_result

type_synonym ('m, 'a, 'x, 'd, 'p, 's) event =
  "('m, 'a, 'x, 'd, 's) call \<times> (exn + ('m, 'a, 'x, 'p, 's) ret)"

record ('w, 'ev) state =
  world :: 'w
  trace :: "'ev list"

section \<open>Statements as state transformers that may raise\<close>

type_synonym ('w, 'ev, 'r) prog = "('w, 'ev) state \<Rightarrow> (exn + 'r) \<times> ('w, 'ev) state"

definition ret :: "'r \<Rightarrow> ('w, 'ev, 'r) prog" where
  "ret v s = (Inr v, s)"

text \<open>A built-in that raises or returns without touching the world.\<close>

definition lift :: "exn + 'r \<Rightarrow> ('w, 'ev, 'r) prog" where
  "lift r s = (r, s)"

text \<open>
  Sequencing: an exception raised by the first statement skips the rest. The scripts
  contain no \<open>try\<close>, so this is the only way statements are combined.
\<close>

definition bind :: "('w, 'ev, 'q) prog \<Rightarrow> ('q \<Rightarrow> ('w, 'ev, 'r) prog) \<Rightarrow> ('w, 'ev, 'r) prog" where
  "bind m f s = (case m s of (Inl e, s') \<Rightarrow> (Inl e, s') | (Inr v, s') \<Rightarrow> f v s')"

text \<open>A call across the boundary: run it on the world and append it to the trace.\<close>

definition call ::
  "'c \<Rightarrow> ('q \<Rightarrow> 'rt) \<Rightarrow> ('w \<Rightarrow> (exn + 'q) \<times> 'w) \<Rightarrow> ('w, 'c \<times> (exn + 'rt), 'q) prog" where
  "call c tag f s =
     (case f (world s) of
        (Inl e, w') \<Rightarrow> (Inl e, \<lparr>world = w', trace = trace s @ [(c, Inl e)]\<rparr>)
      | (Inr v, w') \<Rightarrow> (Inr v, \<lparr>world = w', trace = trace s @ [(c, Inr (tag v))]\<rparr>))"

definition run :: "('w, 'ev, 'r) prog \<Rightarrow> 'w \<Rightarrow> (exn + 'r) \<times> ('w, 'ev) state" where
  "run p w = p \<lparr>world = w, trace = []\<rparr>"

definition outcome :: "('w, 'ev, 'r) prog \<Rightarrow> 'w \<Rightarrow> exn + 'r" where
  "outcome p w = fst (run p w)"

definition calls :: "('w, 'ev, 'r) prog \<Rightarrow> 'w \<Rightarrow> 'ev list" where
  "calls p w = trace (snd (run p w))"

subsection \<open>The calls the scripts make\<close>

definition py_import ::
  "('w, 'm, 'a, 'x, 'd, 'p, 's) library \<Rightarrow> string
     \<Rightarrow> ('w, ('m, 'a, 'x, 'd, 'p, 's) event, unit) prog" where
  "py_import lib name = call (Import name) (\<lambda>_. RNone) (import_module lib name)"

definition urllib_request_urlretrieve ::
  "('w, 'm, 'a, 'x, 'd, 'p, 's) library \<Rightarrow> string \<Rightarrow> string
     \<Rightarrow> ('w, ('m, 'a, 'x, 'd, 'p, 's) event, unit) prog" where
  "urllib_request_urlretrieve lib url filename =
     call (UrlRetrieve url filename) (\<lambda>_. RNone) (urlretrieve lib url filename)"

definition whisper_load_model ::
  "('w, 'm, 'a, 'x, 'd, 'p, 's) library \<Rightarrow> string
     \<Rightarrow> ('w, ('m, 'a, 'x, 'd, 'p, 's) event, 'm) prog" where
  "whisper_load_model lib name = call (LoadModel name) RModel (load_model lib name)"

definition model_transcribe ::
  "('w, 'm, 'a, 'x, 'd, 'p, 's) library \<Rightarrow> 'm \<Rightarrow> string \<Rightarrow> (string \<times> kwval) list
     \<Rightarrow> ('w, ('m, 'a, 'x, 'd, 'p, 's) event, (string, 's pyval) dict) prog" where
  "model_transcribe lib model audio kwargs =
     call (Transcribe model audio kwargs) RResult (transcribe lib model audio kwargs)"

definition whisper_load_audio ::
  "('w, 'm, 'a, 'x, 'd, 'p, 's) library \<Rightarrow> string
     \<Rightarrow> ('w, ('m, 'a, 'x, 'd, 'p, 's) event, 'a) prog" where
  "whisper_load_audio lib file = call (LoadAudio file) RAudio (load_audio lib file)"

definition whisper_pad_or_trim ::
  "('w, 'm, 'a, 'x, 'd, 'p, 's) library \<Rightarrow> 'a
     \<Rightarrow> ('w, ('m, 'a, 'x, 'd, 'p, 's) event, 'a) prog" where
  "whisper_pad_or_trim lib audio = call (PadOrTrim audio) RAudio (pad_or_trim lib audio)"

definition whisper_log_mel_spectrogram ::
  "('w, 'm, 'a, 'x, 'd, 'p, 's) library \<Rightarrow> 'a
     \<Rightarrow> ('w, ('m, 'a, 'x, 'd, 'p, 's) event, 'x) prog" where
  "whisper_log_mel_spectrogram lib audio =
     call (LogMelSpectrogram audio) RTensor (log_mel_spectrogram lib audio)"

definition tensor_dot_to ::
  "('w, 'm, 'a, 'x, 'd, 'p, 's) library \<Rightarrow> 'x \<Rightarrow> 'd
     \<Rightarrow> ('w, ('m, 'a, 'x, 'd, 'p, 's) event, 'x) prog" where
  "tensor_dot_to lib t dev = call (TensorTo t dev) RTensor (tensor_to lib t dev)"

definition model_detect_language ::
  "('w, 'm, 'a, 'x, 'd, 'p, 's) library \<Rightarrow> 'm \<Rightarrow> 'x
     \<Rightarrow> ('w, ('m, 'a, 'x, 'd, 'p, 's) event, 'x \<times> (string, 'p) dict) prog" where
  "model_detect_language lib model mel =
     call (DetectLanguage model mel) (\<lambda>(t, probs). RLanguage t probs)
       (detect_language lib model mel)"

text \<open>
  \<open>whisper.DecodingOptions(language=..., task=...)\<close> builds the dataclass; every other
  field keeps its default.
\<close>

definition whisper_DecodingOptions ::
  "string option \<Rightarrow> string \<Rightarrow> ('w, ('m, 'a, 'x, 'd, 'p, 's) event, decoding_options) prog" where
  "whisper_DecodingOptions language task =
     call (DecodingOptions language task) ROptions
       (\<lambda>w. (Inr \<lparr>opt_language = language, opt_task = task\<rparr>, w))"

definition whisper_decode ::
  "('w, 'm, 'a, 'x, 'd, 'p, 's) library \<Rightarrow> 'm \<Rightarrow> 'x \<Rightarrow> decoding_options
     \<Rightarrow> ('w, ('m, 'a, 'x, 'd, 'p, 's) event, decoding_result) prog" where
  "whisper_decode lib model mel options =
     call (Decode model mel options) RDecoding (decode lib model mel options)"

definition builtin_print ::
  "('w, 'm, 'a, 'x, 'd, 'p, 's) library \<Rightarrow> 's printed
     \<Rightarrow> ('w, ('m, 'a, 'x, 'd, 'p, 's) event, unit) prog" where
  "builtin_print lib v = call (Print v) (\<lambda>_. RNone) (print lib v)"

section \<open>\<open>1_basic_call_english_only.py\<close>\<close>

definition AUDIO_URL_english_only :: string where
  "AUDIO_URL_english_only =
     ''https://github.com/fenago/whisper/raw/refs/heads/main/test_audio_files/terrible_quality.mp3''"

definition AUDIO_FILE_english_only :: string where
  "AUDIO_FILE_english_only = ''terrible_quality.mp3''"

definition get_transcription ::
  "('w, 'm, 'a, 'x, 'd, 'p::linorder, 's) library \<Rightarrow> 'm \<Rightarrow> string
     \<Rightarrow> ('w, ('m, 'a, 'x, 'd, 'p, 's) event, (string, 's pyval) dict) prog" where
  "get_transcription lib MODEL audio_file =
     bind (model_transcribe lib MODEL audio_file []) (\<lambda>result.
     bind (builtin_print lib (PrintedResult result)) (\<lambda>_.
     ret result))"

text \<open>
  The module body, top to bottom: the two imports, load the model, download, transcribe.
\<close>

definition english_only_script ::
  "('w, 'm, 'a, 'x, 'd, 'p::linorder, 's) library
     \<Rightarrow> ('w, ('m, 'a, 'x, 'd, 'p, 's) event, unit) prog" where
  "english_only_script lib =
     bind (py_import lib ''whisper'') (\<lambda>_.
     bind (py_import lib ''urllib.request'') (\<lambda>_.
     bind (whisper_load_model lib ''medium.en'') (\<lambda>MODEL.
     bind (urllib_request_urlretrieve lib AUDIO_URL_english_only AUDIO_FILE_english_only) (\<lambda>_.
     bind (get_transcription lib MODEL AUDIO_FILE_english_only) (\<lambda>_.
     ret ())))))"

section \<open>\<open>1_multiple_languages.py\<close>\<close>

definition AUDIO_URL_multiple_languages :: string where
  "AUDIO_URL_multiple_languages =
     ''https://github.com/fenago/whisper/raw/refs/heads/main/test_audio_files/dutch_the_netherlands.mp3''"

definition AUDIO_FILE_multiple_languages :: string where
  "AUDIO_FILE_multiple_languages = ''dutch_the_netherlands.mp3''"

definition detect_language_and_transcribe ::
  "('w, 'm, 'a, 'x, 'd, 'p::linorder, 's) library \<Rightarrow> 'm \<Rightarrow> string
     \<Rightarrow> ('w, ('m, 'a, 'x, 'd, 'p, 's) event, string) prog" where
  "detect_language_and_transcribe lib model audio_file =
     bind (whisper_load_audio lib audio_file) (\<lambda>audio.
     bind (whisper_pad_or_trim lib audio) (\<lambda>audio.
     bind (whisper_log_mel_spectrogram lib audio) (\<lambda>spectrogram.
     bind (tensor_dot_to lib spectrogram (device lib model)) (\<lambda>mel.
     bind (model_detect_language lib model mel) (\<lambda>(_, language_probs).
     bind (lift (py_max (dict_keys language_probs) (dict_get language_probs))) (\<lambda>language.
     bind (builtin_print lib (PrintedStr (''Detected language: '' @ language))) (\<lambda>_.
     bind (whisper_DecodingOptions (Some language) ''transcribe'') (\<lambda>options.
     bind (whisper_decode lib model mel options) (\<lambda>result.
     bind (builtin_print lib (PrintedDecoding result)) (\<lambda>_.
     ret (dr_text result)))))))))))"

text \<open>
  The module body: the two imports, download, load the model, then the direct call to \<open>transcribe\<close>
  with \<open>task="translate"\<close>. The \<open>def\<close> only binds the function's name, and both calls of
  lines 28 and 31 are commented out.
\<close>

definition multiple_languages_script ::
  "('w, 'm, 'a, 'x, 'd, 'p::linorder, 's) library
     \<Rightarrow> ('w, ('m, 'a, 'x, 'd, 'p, 's) event, unit) prog" where
  "multiple_languages_script lib =
     bind (py_import lib ''whisper'') (\<lambda>_.
     bind (py_import lib ''urllib.request'') (\<lambda>_.
     bind (urllib_request_urlretrieve lib AUDIO_URL_multiple_languages
             AUDIO_FILE_multiple_languages) (\<lambda>_.
     bind (whisper_load_model lib ''medium'') (\<lambda>model.
     bind (model_transcribe lib model AUDIO_FILE_multiple_languages
             [(''verbose'', KwBool True), (''language'', KwStr ''nl''),
              (''task'', KwStr ''translate'')]) (\<lambda>result.
     bind (lift (dict_getitem result ''text'')) (\<lambda>text.
     bind (builtin_print lib (PrintedVal text)) (\<lambda>_.
     ret ())))))))"

section \<open>Reading a trace\<close>

text \<open>
  Both scripts start with the same two imports. \<open>after_imports\<close> is the world they leave
  behind when both return, and \<open>None\<close> when one of them raises.
\<close>

definition after_imports :: "('w, 'm, 'a, 'x, 'd, 'p, 's) library \<Rightarrow> 'w \<Rightarrow> 'w option" where
  "after_imports lib w =
     (case import_module lib ''whisper'' w of
        (Inl e, w1) \<Rightarrow> None
      | (Inr u, w1) \<Rightarrow>
          (case import_module lib ''urllib.request'' w1 of
             (Inl e, w2) \<Rightarrow> None
           | (Inr u', w2) \<Rightarrow> Some w2))"

text \<open>
  The Fetcher is the download; the Transcriber is every call into the model library. An
  import and a print are neither.
\<close>

fun is_fetch :: "('m, 'a, 'x, 'd, 's) call \<Rightarrow> bool" where
  "is_fetch (UrlRetrieve url filename) = True"
| "is_fetch _ = False"

fun is_transcriber :: "('m, 'a, 'x, 'd, 's) call \<Rightarrow> bool" where
  "is_transcriber (Import name) = False"
| "is_transcriber (UrlRetrieve url filename) = False"
| "is_transcriber (Print v) = False"
| "is_transcriber _ = True"

definition fetches :: "(('m, 'a, 'x, 'd, 's) call \<times> 'o) list \<Rightarrow> ('m, 'a, 'x, 'd, 's) call list" where
  "fetches tr = filter is_fetch (map fst tr)"

text \<open>Does a Transcriber call come before the first download?\<close>

fun transcriber_before_fetch :: "('m, 'a, 'x, 'd, 's) call list \<Rightarrow> bool" where
  "transcriber_before_fetch [] = False"
| "transcriber_before_fetch (c # cs) =
     (if is_fetch c then False
      else if is_transcriber c then True
      else transcriber_before_fetch cs)"

text \<open>
  Every call that is handed an audio file path comes after a download to that path has
  returned; \<open>got\<close> lists the paths downloaded so far.
\<close>

fun fetched_before_use :: "string list \<Rightarrow> ('m, 'a, 'x, 'd, 'p, 's) event list \<Rightarrow> bool" where
  "fetched_before_use got [] = True"
| "fetched_before_use got ((UrlRetrieve url filename, Inr v) # evs) =
     fetched_before_use (filename # got) evs"
| "fetched_before_use got ((Transcribe model audio kwargs, out) # evs) =
     (audio \<in> set got \<and> fetched_before_use got evs)"
| "fetched_before_use got ((LoadAudio file, out) # evs) =
     (file \<in> set got \<and> fetched_before_use got evs)"
| "fetched_before_use got (ev # evs) = fetched_before_use got evs"

text \<open>
  An exception reaches the top level unchanged: a call that raised is the last call of
  the run, and what it raised is the outcome of the run.
\<close>

fun propagated :: "exn + 'r \<Rightarrow> ('c \<times> (exn + 'v)) list \<Rightarrow> bool" where
  "propagated out [] = True"
| "propagated out [(c, Inr v)] = True"
| "propagated out [(c, Inl e)] = (case out of Inl e' \<Rightarrow> e' = e | Inr r \<Rightarrow> False)"
| "propagated out ((c, Inr v) # ev # evs) = propagated out (ev # evs)"
| "propagated out ((c, Inl e) # ev # evs) = False"

text \<open>The steps of the manual pipeline, as the specification names them.\<close>

datatype step =
  LoadAudioStep | PadOrTrimStep | SpectrogramStep | DetectLanguageStep
  | DecodingOptionsStep | DecodeStep

fun pipeline_step :: "('m, 'a, 'x, 'd, 's) call \<Rightarrow> step option" where
  "pipeline_step (LoadAudio file) = Some LoadAudioStep"
| "pipeline_step (PadOrTrim audio) = Some PadOrTrimStep"
| "pipeline_step (LogMelSpectrogram audio) = Some SpectrogramStep"
| "pipeline_step (DetectLanguage model mel) = Some DetectLanguageStep"
| "pipeline_step (DecodingOptions language task) = Some DecodingOptionsStep"
| "pipeline_step (Decode model mel options) = Some DecodeStep"
| "pipeline_step _ = None"

definition steps :: "(('m, 'a, 'x, 'd, 's) call \<times> 'o) list \<Rightarrow> step list" where
  "steps tr = List.map_filter (\<lambda>ev. pipeline_step (fst ev)) tr"

text \<open>
  Explicit language detection comes first: scanning the calls, \<open>detect_language\<close> is met
  before any \<open>transcribe\<close> or \<open>decode\<close>.
\<close>

fun detection_before_transcription :: "('m, 'a, 'x, 'd, 's) call list \<Rightarrow> bool" where
  "detection_before_transcription [] = True"
| "detection_before_transcription (DetectLanguage model mel # cs) = True"
| "detection_before_transcription (Transcribe model audio kwargs # cs) = False"
| "detection_before_transcription (Decode model mel options # cs) = False"
| "detection_before_transcription (c # cs) = detection_before_transcription cs"

fun is_detection :: "('m, 'a, 'x, 'd, 's) call \<Rightarrow> bool" where
  "is_detection (DetectLanguage model mel) = True"
| "is_detection _ = False"

text \<open>A call asks for a translation when the task it passes is \<open>"translate"\<close>.\<close>

fun requests_translation :: "('m, 'a, 'x, 'd, 's) call \<Rightarrow> bool" where
  "requests_translation (Transcribe model audio kwargs) =
     (map_of kwargs ''task'' = Some (KwStr ''translate''))"
| "requests_translation (DecodingOptions language task) = (task = ''translate'')"
| "requests_translation (Decode model mel options) = (opt_task options = ''translate'')"
| "requests_translation _ = False"

definition translation_requested :: "(('m, 'a, 'x, 'd, 's) call \<times> 'o) list \<Rightarrow> bool" where
  "translation_requested tr = list_ex (\<lambda>ev. requests_translation (fst ev)) tr"

section \<open>The network-retrieval utility\<close>

text \<open>
  The part of the outside world a download touches: what each URL serves (or the error
  of trying), and the files on disk.
\<close>

record net_world =
  web :: "string \<Rightarrow> exn + string"
  files :: "string \<Rightarrow> string option"

text \<open>
  Modelled from the spec: \<open>urllib.request.urlretrieve\<close> is standard-library code and not
  part of the sources. Section 4.1: given a source URL and a destination path, retrieve
  the bytes at the URL and write them to the destination, overwriting any existing file;
  a failure propagates to the caller. What is left on disk after a failure is not
  specified; here the files are left as they were.
\<close>

definition stdlib_urlretrieve ::
  "string \<Rightarrow> string \<Rightarrow> 'z net_world_scheme \<Rightarrow> (exn + unit) \<times> 'z net_world_scheme" where
  "stdlib_urlretrieve url filename w =
     (case web w url of
        Inl e \<Rightarrow> (Inl e, w)
      | Inr bytes \<Rightarrow> (Inr (), w\<lparr>files := (files w)(filename \<mapsto> bytes)\<rparr>))"

section \<open>A sample environment\<close>

text \<open>
  A small library to run the scripts on: models are their names, audio and tensors are
  lists of numbers, \<open>transcribe\<close> and \<open>load_audio\<close> need the file to exist, and the
  recognised text depends on the task.
\<close>

definition sample_text :: "string \<Rightarrow> string" where
  "sample_text task = (if task = ''translate'' then ''hello world'' else ''hallo wereld'')"

definition sample_library :: "(net_world, string, nat list, nat list, string, real, nat) library" where
  "sample_library =
     \<lparr>import_module = (\<lambda>name w. (Inr (), w)),
      urlretrieve = stdlib_urlretrieve,
      load_model = (\<lambda>name w. (Inr name, w)),
      transcribe = (\<lambda>model audio kwargs w.
         case files w audio of
           None \<Rightarrow> (Inl (External ''FileNotFoundError''), w)
         | Some bytes \<Rightarrow>
             (Inr [(''text'', PyStr (case map_of kwargs ''task'' of
                                      Some (KwStr task) \<Rightarrow> sample_text task
                                    | _ \<Rightarrow> sample_text ''transcribe'')),
                   (''segments'', PySegments [0, 1]),
                   (''language'', PyStr ''nl'')], w)),
      load_audio = (\<lambda>file w.
         case files w file of
           None \<Rightarrow> (Inl (External ''FileNotFoundError''), w)
         | Some bytes \<Rightarrow> (Inr (map of_char bytes), w)),
      pad_or_trim = (\<lambda>audio w. (Inr (take 2 audio), w)),
      log_mel_spectrogram = (\<lambda>audio w. (Inr (map Suc audio), w)),
      device = (\<lambda>model. ''cpu''),
      tensor_to = (\<lambda>t dev w. (Inr t, w)),
      detect_language = (\<lambda>model mel w.
         (Inr ([50259], [(''en'', 1 / 10), (''nl'', 7 / 10), (''de'', 1 / 5)]), w)),
      decode = (\<lambda>model mel options w.
         (Inr \<lparr>dr_language = (case opt_language options of None \<Rightarrow> ''en'' | Some l \<Rightarrow> l),
               dr_tokens = [], dr_text = sample_text (opt_task options)\<rparr>, w)),
      print = (\<lambda>v w. (Inr (), w))\<rparr>"

text \<open>The same library on a machine where the model cannot be loaded.\<close>

definition no_model_library :: "(net_world, string, nat list, nat list, string, real, nat) library" where
  "no_model_library =
     sample_library\<lparr>load_model := (\<lambda>name w. (Inl (External ''RuntimeError''), w))\<rparr>"

text \<open>The same library on a machine where \<open>whisper\<close> is not installed.\<close>

definition no_whisper_library :: "(net_world, string, nat list, nat list, string, real, nat) library" where
  "no_whisper_library =
     sample_library\<lparr>import_module := (\<lambda>name w.
        if name = ''whisper'' then (Inl (External ''ModuleNotFoundError''), w) else (Inr (), w))\<rparr>"

definition online_world :: net_world where
  "online_world = \<lparr>web = (\<lambda>url. Inr ''ID3''), files = Map.empty\<rparr>"

definition offline_world :: net_world where
  "offline_world = \<lparr>web = (\<lambda>url. Inl (External ''URLError'')), files = Map.empty\<rparr>"

definition downloaded_world :: net_world where
  "downloaded_world =
     \<lparr>web = (\<lambda>url. Inr ''ID3''), files = [AUDIO_FILE_multiple_languages \<mapsto> ''ID3'']\<rparr>"

definition stale_world :: net_world where
  "stale_world = \<lparr>web = (\<lambda>url. Inr ''ID3''), files = [''speech.mp3'' \<mapsto> ''old'']\<rparr>"

section \<open>Theorems\<close>

subsection \<open>The arg-max selection\<close>

lemma max_loop_split:
  assumes "\<forall>x\<in>set xs. key x = Some (g x)"
  shows "\<exists>r. max_loop key m (Some (g m)) xs = Inr r \<and>
           ((r = m \<and> (\<forall>x\<in>set xs. g x \<le> g m)) \<or>
            (\<exists>pre post. xs = pre @ r # post \<and> g m < g r \<and>
               (\<forall>x\<in>set pre. g x < g r) \<and> (\<forall>x\<in>set post. g x \<le> g r)))"
  using assms
proof (induction xs arbitrary: m)
  case Nil
  then show ?case by simp
next
  case (Cons x xs)
  have kx: "key x = Some (g x)" using Cons.prems by simp
  have rest: "\<forall>y\<in>set xs. key y = Some (g y)" using Cons.prems by simp
  show ?case
  proof (cases "g m < g x")
    case True
    from Cons.IH [OF rest, of x] obtain r where
      run: "max_loop key x (Some (g x)) xs = Inr r" and
      alt: "(r = x \<and> (\<forall>y\<in>set xs. g y \<le> g x)) \<or>
            (\<exists>pre post. xs = pre @ r # post \<and> g x < g r \<and>
               (\<forall>y\<in>set pre. g y < g r) \<and> (\<forall>y\<in>set post. g y \<le> g r))"
      by blast
    have step: "max_loop key m (Some (g m)) (x # xs) = Inr r"
      using True kx run by simp
    from alt have "\<exists>pre post. x # xs = pre @ r # post \<and> g m < g r \<and>
               (\<forall>y\<in>set pre. g y < g r) \<and> (\<forall>y\<in>set post. g y \<le> g r)"
    proof
      assume a: "r = x \<and> (\<forall>y\<in>set xs. g y \<le> g x)"
      then have "x # xs = [] @ r # xs \<and> g m < g r \<and>
               (\<forall>y\<in>set []. g y < g r) \<and> (\<forall>y\<in>set xs. g y \<le> g r)"
        using True by simp
      then show ?thesis by blast
    next
      assume "\<exists>pre post. xs = pre @ r # post \<and> g x < g r \<and>
               (\<forall>y\<in>set pre. g y < g r) \<and> (\<forall>y\<in>set post. g y \<le> g r)"
      then obtain pre post where p: "xs = pre @ r # post" "g x < g r"
        "\<forall>y\<in>set pre. g y < g r" "\<forall>y\<in>set post. g y \<le> g r" by blast
      then have "x # xs = (x # pre) @ r # post \<and> g m < g r \<and>
               (\<forall>y\<in>set (x # pre). g y < g r) \<and> (\<forall>y\<in>set post. g y \<le> g r)"
        using True by auto
      then show ?thesis by blast
    qed
    with step show ?thesis by blast
  next
    case False
    then have le: "g x \<le> g m" by simp
    from Cons.IH [OF rest, of m] obtain r where
      run: "max_loop key m (Some (g m)) xs = Inr r" and
      alt: "(r = m \<and> (\<forall>y\<in>set xs. g y \<le> g m)) \<or>
            (\<exists>pre post. xs = pre @ r # post \<and> g m < g r \<and>
               (\<forall>y\<in>set pre. g y < g r) \<and> (\<forall>y\<in>set post. g y \<le> g r))"
      by blast
    have step: "max_loop key m (Some (g m)) (x # xs) = Inr r"
      using False kx run by simp
    from alt have "(r = m \<and> (\<forall>y\<in>set (x # xs). g y \<le> g m)) \<or>
            (\<exists>pre post. x # xs = pre @ r # post \<and> g m < g r \<and>
               (\<forall>y\<in>set pre. g y < g r) \<and> (\<forall>y\<in>set post. g y \<le> g r))"
    proof
      assume "r = m \<and> (\<forall>y\<in>set xs. g y \<le> g m)"
      then show ?thesis using le by simp
    next
      assume "\<exists>pre post. xs = pre @ r # post \<and> g m < g r \<and>
               (\<forall>y\<in>set pre. g y < g r) \<and> (\<forall>y\<in>set post. g y \<le> g r)"
      then obtain pre post where p: "xs = pre @ r # post" "g m < g r"
        "\<forall>y\<in>set pre. g y < g r" "\<forall>y\<in>set post. g y \<le> g r" by blast
      then have "x # xs = (x # pre) @ r # post \<and> g m < g r \<and>
               (\<forall>y\<in>set (x # pre). g y < g r) \<and> (\<forall>y\<in>set post. g y \<le> g r)"
        using le by auto
      then show ?thesis by blast
    qed
    with step show ?thesis by blast
  qed
qed

text \<open>
  On a non-empty list whose items all have a key, \<open>max\<close> returns an item that splits the
  list: everything before it is strictly smaller, everything after it is at most equal.
\<close>

lemma py_max_split:
  assumes "xs \<noteq> []" and "\<forall>x\<in>set xs. key x = Some (g x)"
  shows "\<exists>r pre post. py_max xs key = Inr r \<and> xs = pre @ r # post \<and>
           (\<forall>x\<in>set pre. g x < g r) \<and> (\<forall>x\<in>set post. g x \<le> g r)"
proof -
  from assms(1) obtain m ms where xs: "xs = m # ms" by (cases xs) auto
  have km: "key m = Some (g m)" and rest: "\<forall>x\<in>set ms. key x = Some (g x)"
    using assms(2) xs by auto
  from max_loop_split [OF rest, of m] obtain r where
    run: "max_loop key m (Some (g m)) ms = Inr r" and
    alt: "(r = m \<and> (\<forall>x\<in>set ms. g x \<le> g m)) \<or>
          (\<exists>pre post. ms = pre @ r # post \<and> g m < g r \<and>
             (\<forall>x\<in>set pre. g x < g r) \<and> (\<forall>x\<in>set post. g x \<le> g r))"
    by blast
  have res: "py_max xs key = Inr r"
    using run km xs by (simp add: py_max_def)
  from alt show ?thesis
  proof
    assume "r = m \<and> (\<forall>x\<in>set ms. g x \<le> g m)"
    then have "xs = [] @ r # ms \<and> (\<forall>x\<in>set []. g x < g r) \<and> (\<forall>x\<in>set ms. g x \<le> g r)"
      using xs by simp
    with res show ?thesis by blast
  next
    assume "\<exists>pre post. ms = pre @ r # post \<and> g m < g r \<and>
             (\<forall>x\<in>set pre. g x < g r) \<and> (\<forall>x\<in>set post. g x \<le> g r)"
    then obtain pre post where p: "ms = pre @ r # post" "g m < g r"
      "\<forall>x\<in>set pre. g x < g r" "\<forall>x\<in>set post. g x \<le> g r" by blast
    then have "xs = (m # pre) @ r # post \<and> (\<forall>x\<in>set (m # pre). g x < g r) \<and>
        (\<forall>x\<in>set post. g x \<le> g r)"
      using xs by auto
    with res show ?thesis by blast
  qed
qed

lemma dict_get_key:
  "k \<in> set (dict_keys d) \<Longrightarrow> dict_get d k = Some (the (dict_get d k))"
proof -
  assume "k \<in> set (dict_keys d)"
  then have "map_of d k \<noteq> None"
    by (simp add: dict_keys_def map_of_eq_None_iff)
  then show ?thesis by (auto simp: dict_get_def)
qed

lemma ran_dict_get:
  "ran (dict_get d) = (\<lambda>k. the (dict_get d k)) ` set (dict_keys d)"
proof (rule set_eqI, rule iffI)
  fix v
  assume "v \<in> ran (dict_get d)"
  then obtain k where k: "dict_get d k = Some v" by (auto simp: ran_def)
  then have "k \<in> set (dict_keys d)"
    by (auto simp: dict_get_def dict_keys_def dest: map_of_SomeD intro: rev_image_eqI)
  with k show "v \<in> (\<lambda>k. the (dict_get d k)) ` set (dict_keys d)"
    by (auto intro: rev_image_eqI)
next
  fix v
  assume "v \<in> (\<lambda>k. the (dict_get d k)) ` set (dict_keys d)"
  then obtain k where k: "k \<in> set (dict_keys d)" and v: "v = the (dict_get d k)"
    by blast
  from dict_get_key [OF k] v have "dict_get d k = Some v" by simp
  then show "v \<in> ran (dict_get d)" by (auto simp: ran_def)
qed


lemma py_max_dict:
  assumes "d \<noteq> []"
  shows "\<exists>l pre post. py_max (dict_keys d) (dict_get d) = Inr l \<and>
           dict_keys d = pre @ l # post \<and>
           dict_get d l = Some (Max (ran (dict_get d))) \<and>
           (\<forall>k\<in>set pre. \<exists>q. dict_get d k = Some q \<and> q < Max (ran (dict_get d)))"
proof -
  let ?g = "\<lambda>k. the (dict_get d k)"
  have ne: "dict_keys d \<noteq> []" using assms by (simp add: dict_keys_def)
  have keys: "\<forall>k\<in>set (dict_keys d). dict_get d k = Some (?g k)"
    using dict_get_key by fastforce
  from py_max_split [OF ne keys] obtain l pre post where
    res: "py_max (dict_keys d) (dict_get d) = Inr l" and
    split: "dict_keys d = pre @ l # post" and
    before: "\<forall>k\<in>set pre. ?g k < ?g l" and
    after: "\<forall>k\<in>set post. ?g k \<le> ?g l"
    by blast
  have fin: "finite (ran (dict_get d))"
    by (simp add: ran_dict_get)
  have mem: "?g l \<in> ran (dict_get d)"
    using split by (simp add: ran_dict_get)
  have ub: "\<And>v. v \<in> ran (dict_get d) \<Longrightarrow> v \<le> ?g l"
    using before after split by (auto simp: ran_dict_get less_imp_le)
  have mx: "Max (ran (dict_get d)) = ?g l"
    by (rule Max_eqI [OF fin ub mem])
  have l: "dict_get d l = Some (?g l)" using keys split by simp
  have "\<forall>k\<in>set pre. \<exists>q. dict_get d k = Some q \<and> q < Max (ran (dict_get d))"
    using before keys split mx by auto
  with res split l mx show ?thesis by auto
qed

lemma py_max_empty: "py_max (dict_keys []) (dict_get []) = Inl ValueError"
  by (simp add: py_max_def dict_keys_def)

lemma py_max_dict_sound:
  assumes "py_max (dict_keys d) (dict_get d) = Inr l"
  shows "l \<in> set (dict_keys d) \<and> dict_get d l = Some (Max (ran (dict_get d)))"
proof -
  have "d \<noteq> []"
  proof
    assume "d = []"
    then have "py_max (dict_keys d) (dict_get d) = Inl ValueError"
      by (simp add: py_max_empty)
    with assms show False by simp
  qed
  from py_max_dict [OF this] assms show ?thesis by auto
qed


lemmas prog_defs = run_def outcome_def calls_def bind_def ret_def lift_def call_def
  py_import_def urllib_request_urlretrieve_def whisper_load_model_def model_transcribe_def
  whisper_load_audio_def whisper_pad_or_trim_def whisper_log_mel_spectrogram_def
  tensor_dot_to_def model_detect_language_def whisper_DecodingOptions_def
  whisper_decode_def builtin_print_def

lemma detect_language_and_transcribe_selection:
  assumes "(DetectLanguage m x, Inr (RLanguage t probs))
             \<in> set (calls (detect_language_and_transcribe lib model audio_file) w)"
    and "(DecodingOptions selected task, out)
             \<in> set (calls (detect_language_and_transcribe lib model audio_file) w)"
  shows "\<exists>l. py_max (dict_keys probs) (dict_get probs) = Inr l \<and> selected = Some l \<and>
           task = ''transcribe''"
  using assms
  by (auto simp: detect_language_and_transcribe_def prog_defs split: sum.splits prod.splits)

lemma sample_detect_calls:
  "calls (detect_language_and_transcribe sample_library ''medium'' AUDIO_FILE_multiple_languages)
     downloaded_world =
   [(LoadAudio AUDIO_FILE_multiple_languages, Inr (RAudio [73, 68, 51])),
    (PadOrTrim [73, 68, 51], Inr (RAudio [73, 68])),
    (LogMelSpectrogram [73, 68], Inr (RTensor [74, 69])),
    (TensorTo [74, 69] ''cpu'', Inr (RTensor [74, 69])),
    (DetectLanguage ''medium'' [74, 69],
       Inr (RLanguage [50259] [(''en'', 1 / 10), (''nl'', 7 / 10), (''de'', 1 / 5)])),
    (Print (PrintedStr ''Detected language: nl''), Inr RNone),
    (DecodingOptions (Some ''nl'') ''transcribe'',
       Inr (ROptions \<lparr>opt_language = Some ''nl'', opt_task = ''transcribe''\<rparr>)),
    (Decode ''medium'' [74, 69] \<lparr>opt_language = Some ''nl'', opt_task = ''transcribe''\<rparr>,
       Inr (RDecoding \<lparr>dr_language = ''nl'', dr_tokens = [], dr_text = ''hallo wereld''\<rparr>)),
    (Print (PrintedDecoding \<lparr>dr_language = ''nl'', dr_tokens = [], dr_text = ''hallo wereld''\<rparr>),
       Inr RNone)]"
  by (simp add: detect_language_and_transcribe_def prog_defs sample_library_def
      downloaded_world_def py_max_def dict_keys_def dict_get_def sample_text_def)

lemma sample_detect_outcome:
  "outcome (detect_language_and_transcribe sample_library ''medium'' AUDIO_FILE_multiple_languages)
     downloaded_world = Inr ''hallo wereld''"
  by (simp add: detect_language_and_transcribe_def prog_defs sample_library_def
      downloaded_world_def py_max_def dict_keys_def dict_get_def sample_text_def)

text \<open>
  C1. In \<open>detect_language_and_transcribe\<close> the selected language is a key of the
  probability mapping returned by language detection, and its probability is the
  maximum of the mapping: \<open>max(language_probs, key=language_probs.get)\<close> returns such a
  key for every non-empty mapping, and in every run the language handed to the decoding
  options is that key of the mapping \<open>model.detect_language\<close> returned.
\<close>

theorem selected_language_has_maximum_probability:
  fixes language_probs :: "(string, 'p::linorder) dict"
  shows
    "(language_probs \<noteq> [] \<longrightarrow>
        (\<exists>language. py_max (dict_keys language_probs) (dict_get language_probs) = Inr language \<and>
           language \<in> set (dict_keys language_probs) \<and>
           dict_get language_probs language = Some (Max (ran (dict_get language_probs))))) \<and>
     ((DetectLanguage m x, Inr (RLanguage t language_probs))
          \<in> set (calls (detect_language_and_transcribe lib model audio_file) w) \<and>
      (DecodingOptions selected task, out)
          \<in> set (calls (detect_language_and_transcribe lib model audio_file) w) \<longrightarrow>
        (\<exists>language. selected = Some language \<and>
           language \<in> set (dict_keys language_probs) \<and>
           dict_get language_probs language = Some (Max (ran (dict_get language_probs)))))"
proof (intro conjI impI)
  assume "language_probs \<noteq> []"
  from py_max_dict [OF this] obtain l pre post where
    "py_max (dict_keys language_probs) (dict_get language_probs) = Inr l"
    "dict_keys language_probs = pre @ l # post"
    "dict_get language_probs l = Some (Max (ran (dict_get language_probs)))"
    by blast
  then show "\<exists>language. py_max (dict_keys language_probs) (dict_get language_probs) = Inr language \<and>
           language \<in> set (dict_keys language_probs) \<and>
           dict_get language_probs language = Some (Max (ran (dict_get language_probs)))"
    by auto
next
  assume ev: "(DetectLanguage m x, Inr (RLanguage t language_probs))
          \<in> set (calls (detect_language_and_transcribe lib model audio_file) w) \<and>
      (DecodingOptions selected task, out)
          \<in> set (calls (detect_language_and_transcribe lib model audio_file) w)"
  from detect_language_and_transcribe_selection [of m x t language_probs lib model audio_file w
      selected task out] ev
  obtain l where l: "py_max (dict_keys language_probs) (dict_get language_probs) = Inr l"
    and sel: "selected = Some l" by blast
  from py_max_dict_sound [OF l] sel
  show "\<exists>language. selected = Some language \<and>
           language \<in> set (dict_keys language_probs) \<and>
           dict_get language_probs language = Some (Max (ran (dict_get language_probs)))"
    by simp
qed

theorem selected_language_has_maximum_probability_witness:
  "[(''en'', 1 / 10), (''nl'', 7 / 10), (''de'', 1 / 5)] \<noteq> ([] :: (string, real) dict) \<and>
   (DetectLanguage ''medium'' [74, 69],
      Inr (RLanguage [50259] [(''en'', 1 / 10), (''nl'', 7 / 10), (''de'', 1 / 5)]))
     \<in> set (calls (detect_language_and_transcribe sample_library ''medium''
                     AUDIO_FILE_multiple_languages) downloaded_world) \<and>
   (DecodingOptions (Some ''nl'') ''transcribe'',
      Inr (ROptions \<lparr>opt_language = Some ''nl'', opt_task = ''transcribe''\<rparr>))
     \<in> set (calls (detect_language_and_transcribe sample_library ''medium''
                     AUDIO_FILE_multiple_languages) downloaded_world) \<and>
   dict_get [(''en'', 1 / 10), (''nl'', 7 / 10), (''de'', 1 / 5 :: real)] ''nl''
     = Some (Max (ran (dict_get [(''en'', 1 / 10), (''nl'', 7 / 10), (''de'', 1 / 5 :: real)])))"
  using selected_language_has_maximum_probability
    [where language_probs = "[(''en'', 1 / 10), (''nl'', 7 / 10), (''de'', 1 / 5 :: real)]"
       and m = "''medium''" and x = "[74, 69]" and t = "[50259]"
       and lib = sample_library and model = "''medium''"
       and audio_file = AUDIO_FILE_multiple_languages and w = downloaded_world
       and selected = "Some ''nl''" and task = "''transcribe''"
       and out = "Inr (ROptions \<lparr>opt_language = Some ''nl'', opt_task = ''transcribe''\<rparr>)"]
  by (simp add: sample_detect_calls)



subsection \<open>Runs of the scripts\<close>

lemmas script_defs = english_only_script_def multiple_languages_script_def
  get_transcription_def detect_language_and_transcribe_def

lemmas sample_defs = sample_library_def no_model_library_def no_whisper_library_def
  online_world_def
  offline_world_def downloaded_world_def stale_world_def stdlib_urlretrieve_def
  sample_text_def py_max_def dict_keys_def dict_get_def dict_getitem_def
  AUDIO_FILE_english_only_def AUDIO_FILE_multiple_languages_def

lemma sample_english_calls:
  "calls (english_only_script sample_library) online_world =
   [(Import ''whisper'', Inr RNone), (Import ''urllib.request'', Inr RNone),
    (LoadModel ''medium.en'', Inr (RModel ''medium.en'')),
    (UrlRetrieve AUDIO_URL_english_only ''terrible_quality.mp3'', Inr RNone),
    (Transcribe ''medium.en'' ''terrible_quality.mp3'' [],
       Inr (RResult [(''text'', PyStr ''hallo wereld''), (''segments'', PySegments [0, 1]),
                     (''language'', PyStr ''nl'')])),
    (Print (PrintedResult [(''text'', PyStr ''hallo wereld''), (''segments'', PySegments [0, 1]),
                     (''language'', PyStr ''nl'')]), Inr RNone)]"
  by (simp add: script_defs prog_defs sample_defs)

lemma sample_english_outcome:
  "outcome (english_only_script sample_library) online_world = Inr ()"
  by (simp add: script_defs prog_defs sample_defs)

lemma sample_multiple_calls:
  "calls (multiple_languages_script sample_library) online_world =
   [(Import ''whisper'', Inr RNone), (Import ''urllib.request'', Inr RNone),
    (UrlRetrieve AUDIO_URL_multiple_languages ''dutch_the_netherlands.mp3'', Inr RNone),
    (LoadModel ''medium'', Inr (RModel ''medium'')),
    (Transcribe ''medium'' ''dutch_the_netherlands.mp3''
       [(''verbose'', KwBool True), (''language'', KwStr ''nl''), (''task'', KwStr ''translate'')],
       Inr (RResult [(''text'', PyStr ''hello world''), (''segments'', PySegments [0, 1]),
                     (''language'', PyStr ''nl'')])),
    (Print (PrintedVal (PyStr ''hello world'')), Inr RNone)]"
  by (simp add: script_defs prog_defs sample_defs)

lemma sample_multiple_outcome:
  "outcome (multiple_languages_script sample_library) online_world = Inr ()"
  by (simp add: script_defs prog_defs sample_defs)

lemma offline_multiple_calls:
  "calls (multiple_languages_script sample_library) offline_world =
   [(Import ''whisper'', Inr RNone), (Import ''urllib.request'', Inr RNone),
    (UrlRetrieve AUDIO_URL_multiple_languages ''dutch_the_netherlands.mp3'',
       Inl (External ''URLError''))]"
  by (simp add: script_defs prog_defs sample_defs)

lemma offline_multiple_outcome:
  "outcome (multiple_languages_script sample_library) offline_world = Inl (External ''URLError'')"
  by (simp add: script_defs prog_defs sample_defs)

lemma offline_english_outcome:
  "outcome (english_only_script sample_library) offline_world = Inl (External ''URLError'')"
  by (simp add: script_defs prog_defs sample_defs)

lemma no_model_english_calls:
  "calls (english_only_script no_model_library) online_world =
   [(Import ''whisper'', Inr RNone), (Import ''urllib.request'', Inr RNone),
    (LoadModel ''medium.en'', Inl (External ''RuntimeError''))]"
  by (simp add: script_defs prog_defs sample_defs)

text \<open>
  Each program is a straight line of calls, so a run is settled by the first call that
  raises: the lemmas below list, for each program, every outcome together with the
  calls made.
\<close>

lemma english_only_script_cases:
  "(\<exists>e.
        after_imports lib w = None \<and>
        outcome (english_only_script lib) w = Inl e \<and>
        calls (english_only_script lib) w =
          [(Import ''whisper'', Inl e)]) \<or>
   (\<exists>e.
        after_imports lib w = None \<and>
        outcome (english_only_script lib) w = Inl e \<and>
        calls (english_only_script lib) w =
          [(Import ''whisper'', Inr RNone),
           (Import ''urllib.request'', Inl e)]) \<or>
   (\<exists>w2 e.
        after_imports lib w = Some w2 \<and>
        fst (load_model lib ''medium.en'' w2) = Inl e \<and>
        outcome (english_only_script lib) w = Inl e \<and>
        calls (english_only_script lib) w =
          [(Import ''whisper'', Inr RNone),
           (Import ''urllib.request'', Inr RNone),
           (LoadModel ''medium.en'', Inl e)]) \<or>
   (\<exists>w2 MODEL e.
        after_imports lib w = Some w2 \<and>
        fst (load_model lib ''medium.en'' w2) = Inr MODEL \<and>
        outcome (english_only_script lib) w = Inl e \<and>
        calls (english_only_script lib) w =
          [(Import ''whisper'', Inr RNone),
           (Import ''urllib.request'', Inr RNone),
           (LoadModel ''medium.en'', Inr (RModel MODEL)),
           (UrlRetrieve AUDIO_URL_english_only AUDIO_FILE_english_only, Inl e)]) \<or>
   (\<exists>w2 MODEL e.
        after_imports lib w = Some w2 \<and>
        fst (load_model lib ''medium.en'' w2) = Inr MODEL \<and>
        outcome (english_only_script lib) w = Inl e \<and>
        calls (english_only_script lib) w =
          [(Import ''whisper'', Inr RNone),
           (Import ''urllib.request'', Inr RNone),
           (LoadModel ''medium.en'', Inr (RModel MODEL)),
           (UrlRetrieve AUDIO_URL_english_only AUDIO_FILE_english_only, Inr RNone),
           (Transcribe MODEL AUDIO_FILE_english_only [], Inl e)]) \<or>
   (\<exists>w2 MODEL result e.
        after_imports lib w = Some w2 \<and>
        fst (load_model lib ''medium.en'' w2) = Inr MODEL \<and>
        outcome (english_only_script lib) w = Inl e \<and>
        calls (english_only_script lib) w =
          [(Import ''whisper'', Inr RNone),
           (Import ''urllib.request'', Inr RNone),
           (LoadModel ''medium.en'', Inr (RModel MODEL)),
           (UrlRetrieve AUDIO_URL_english_only AUDIO_FILE_english_only, Inr RNone),
           (Transcribe MODEL AUDIO_FILE_english_only [], Inr (RResult result)),
           (Print (PrintedResult result), Inl e)]) \<or>
   (\<exists>w2 MODEL result.
        after_imports lib w = Some w2 \<and>
        fst (load_model lib ''medium.en'' w2) = Inr MODEL \<and>
        outcome (english_only_script lib) w = Inr () \<and>
        calls (english_only_script lib) w =
          [(Import ''whisper'', Inr RNone),
           (Import ''urllib.request'', Inr RNone),
           (LoadModel ''medium.en'', Inr (RModel MODEL)),
           (UrlRetrieve AUDIO_URL_english_only AUDIO_FILE_english_only, Inr RNone),
           (Transcribe MODEL AUDIO_FILE_english_only [], Inr (RResult result)),
           (Print (PrintedResult result), Inr RNone)])"
  by (auto simp add: script_defs prog_defs after_imports_def split: sum.split prod.split)

lemma multiple_languages_script_cases:
  "(\<exists>e.
        after_imports lib w = None \<and>
        outcome (multiple_languages_script lib) w = Inl e \<and>
        calls (multiple_languages_script lib) w =
          [(Import ''whisper'', Inl e)]) \<or>
   (\<exists>e.
        after_imports lib w = None \<and>
        outcome (multiple_languages_script lib) w = Inl e \<and>
        calls (multiple_languages_script lib) w =
          [(Import ''whisper'', Inr RNone),
           (Import ''urllib.request'', Inl e)]) \<or>
   (\<exists>w2 e.
        after_imports lib w = Some w2 \<and>
        fst (urlretrieve lib AUDIO_URL_multiple_languages AUDIO_FILE_multiple_languages w2) = Inl e \<and>
        outcome (multiple_languages_script lib) w = Inl e \<and>
        calls (multiple_languages_script lib) w =
          [(Import ''whisper'', Inr RNone),
           (Import ''urllib.request'', Inr RNone),
           (UrlRetrieve AUDIO_URL_multiple_languages AUDIO_FILE_multiple_languages, Inl e)]) \<or>
   (\<exists>w2 e.
        after_imports lib w = Some w2 \<and>
        fst (urlretrieve lib AUDIO_URL_multiple_languages AUDIO_FILE_multiple_languages w2) = Inr () \<and>
        outcome (multiple_languages_script lib) w = Inl e \<and>
        calls (multiple_languages_script lib) w =
          [(Import ''whisper'', Inr RNone),
           (Import ''urllib.request'', Inr RNone),
           (UrlRetrieve AUDIO_URL_multiple_languages AUDIO_FILE_multiple_languages, Inr RNone),
           (LoadModel ''medium'', Inl e)]) \<or>
   (\<exists>w2 model e.
        after_imports lib w = Some w2 \<and>
        fst (urlretrieve lib AUDIO_URL_multiple_languages AUDIO_FILE_multiple_languages w2) = Inr () \<and>
        outcome (multiple_languages_script lib) w = Inl e \<and>
        calls (multiple_languages_script lib) w =
          [(Import ''whisper'', Inr RNone),
           (Import ''urllib.request'', Inr RNone),
           (UrlRetrieve AUDIO_URL_multiple_languages AUDIO_FILE_multiple_languages, Inr RNone),
           (LoadModel ''medium'', Inr (RModel model)),
           (Transcribe model AUDIO_FILE_multiple_languages
             [(''verbose'', KwBool True), (''language'', KwStr ''nl''),
              (''task'', KwStr ''translate'')], Inl e)]) \<or>
   (\<exists>w2 model result e.
        after_imports lib w = Some w2 \<and>
        fst (urlretrieve lib AUDIO_URL_multiple_languages AUDIO_FILE_multiple_languages w2) = Inr () \<and>
        dict_getitem result ''text'' = Inl e \<and>
        outcome (multiple_languages_script lib) w = Inl e \<and>
        calls (multiple_languages_script lib) w =
          [(Import ''whisper'', Inr RNone),
           (Import ''urllib.request'', Inr RNone),
           (UrlRetrieve AUDIO_URL_multiple_languages AUDIO_FILE_multiple_languages, Inr RNone),
           (LoadModel ''medium'', Inr (RModel model)),
           (Transcribe model AUDIO_FILE_multiple_languages
             [(''verbose'', KwBool True), (''language'', KwStr ''nl''),
              (''task'', KwStr ''translate'')], Inr (RResult result))]) \<or>
   (\<exists>w2 model result text e.
        after_imports lib w = Some w2 \<and>
        fst (urlretrieve lib AUDIO_URL_multiple_languages AUDIO_FILE_multiple_languages w2) = Inr () \<and>
        dict_getitem result ''text'' = Inr text \<and>
        outcome (multiple_languages_script lib) w = Inl e \<and>
        calls (multiple_languages_script lib) w =
          [(Import ''whisper'', Inr RNone),
           (Import ''urllib.request'', Inr RNone),
           (UrlRetrieve AUDIO_URL_multiple_languages AUDIO_FILE_multiple_languages, Inr RNone),
           (LoadModel ''medium'', Inr (RModel model)),
           (Transcribe model AUDIO_FILE_multiple_languages
             [(''verbose'', KwBool True), (''language'', KwStr ''nl''),
              (''task'', KwStr ''translate'')], Inr (RResult result)),
           (Print (PrintedVal text), Inl e)]) \<or>
   (\<exists>w2 model result text.
        after_imports lib w = Some w2 \<and>
        fst (urlretrieve lib AUDIO_URL_multiple_languages AUDIO_FILE_multiple_languages w2) = Inr () \<and>
        dict_getitem result ''text'' = Inr text \<and>
        outcome (multiple_languages_script lib) w = Inr () \<and>
        calls (multiple_languages_script lib) w =
          [(Import ''whisper'', Inr RNone),
           (Import ''urllib.request'', Inr RNone),
           (UrlRetrieve AUDIO_URL_multiple_languages AUDIO_FILE_multiple_languages, Inr RNone),
           (LoadModel ''medium'', Inr (RModel model)),
           (Transcribe model AUDIO_FILE_multiple_languages
             [(''verbose'', KwBool True), (''language'', KwStr ''nl''),
              (''task'', KwStr ''translate'')], Inr (RResult result)),
           (Print (PrintedVal text), Inr RNone)])"
  by (auto simp add: script_defs prog_defs after_imports_def split: sum.split prod.split)

lemma get_transcription_cases:
  "(\<exists>e.
        fst (transcribe lib MODEL audio_file [] w) = Inl e \<and>
        outcome (get_transcription lib MODEL audio_file) w = Inl e \<and>
        calls (get_transcription lib MODEL audio_file) w =
          [(Transcribe MODEL audio_file [], Inl e)]) \<or>
   (\<exists>result e.
        fst (transcribe lib MODEL audio_file [] w) = Inr result \<and>
        outcome (get_transcription lib MODEL audio_file) w = Inl e \<and>
        calls (get_transcription lib MODEL audio_file) w =
          [(Transcribe MODEL audio_file [], Inr (RResult result)),
           (Print (PrintedResult result), Inl e)]) \<or>
   (\<exists>result.
        fst (transcribe lib MODEL audio_file [] w) = Inr result \<and>
        outcome (get_transcription lib MODEL audio_file) w = Inr result \<and>
        calls (get_transcription lib MODEL audio_file) w =
          [(Transcribe MODEL audio_file [], Inr (RResult result)),
           (Print (PrintedResult result), Inr RNone)])"
  by (auto simp add: script_defs prog_defs split: sum.split prod.split)

lemma detect_language_and_transcribe_cases:
  "(\<exists>e.
        outcome (detect_language_and_transcribe lib model audio_file) w = Inl e \<and>
        calls (detect_language_and_transcribe lib model audio_file) w =
          [(LoadAudio audio_file, Inl e)]) \<or>
   (\<exists>audio e.
        outcome (detect_language_and_transcribe lib model audio_file) w = Inl e \<and>
        calls (detect_language_and_transcribe lib model audio_file) w =
          [(LoadAudio audio_file, Inr (RAudio audio)),
           (PadOrTrim audio, Inl e)]) \<or>
   (\<exists>audio audio' e.
        outcome (detect_language_and_transcribe lib model audio_file) w = Inl e \<and>
        calls (detect_language_and_transcribe lib model audio_file) w =
          [(LoadAudio audio_file, Inr (RAudio audio)),
           (PadOrTrim audio, Inr (RAudio audio')),
           (LogMelSpectrogram audio', Inl e)]) \<or>
   (\<exists>audio audio' spectrogram e.
        outcome (detect_language_and_transcribe lib model audio_file) w = Inl e \<and>
        calls (detect_language_and_transcribe lib model audio_file) w =
          [(LoadAudio audio_file, Inr (RAudio audio)),
           (PadOrTrim audio, Inr (RAudio audio')),
           (LogMelSpectrogram audio', Inr (RTensor spectrogram)),
           (TensorTo spectrogram (device lib model), Inl e)]) \<or>
   (\<exists>audio audio' spectrogram mel e.
        outcome (detect_language_and_transcribe lib model audio_file) w = Inl e \<and>
        calls (detect_language_and_transcribe lib model audio_file) w =
          [(LoadAudio audio_file, Inr (RAudio audio)),
           (PadOrTrim audio, Inr (RAudio audio')),
           (LogMelSpectrogram audio', Inr (RTensor spectrogram)),
           (TensorTo spectrogram (device lib model), Inr (RTensor mel)),
           (DetectLanguage model mel, Inl e)]) \<or>
   (\<exists>audio audio' spectrogram mel t language_probs e.
        py_max (dict_keys language_probs) (dict_get language_probs) = Inl e \<and>
        outcome (detect_language_and_transcribe lib model audio_file) w = Inl e \<and>
        calls (detect_language_and_transcribe lib model audio_file) w =
          [(LoadAudio audio_file, Inr (RAudio audio)),
           (PadOrTrim audio, Inr (RAudio audio')),
           (LogMelSpectrogram audio', Inr (RTensor spectrogram)),
           (TensorTo spectrogram (device lib model), Inr (RTensor mel)),
           (DetectLanguage model mel, Inr (RLanguage t language_probs))]) \<or>
   (\<exists>audio audio' spectrogram mel t language_probs language e.
        py_max (dict_keys language_probs) (dict_get language_probs) = Inr language \<and>
        outcome (detect_language_and_transcribe lib model audio_file) w = Inl e \<and>
        calls (detect_language_and_transcribe lib model audio_file) w =
          [(LoadAudio audio_file, Inr (RAudio audio)),
           (PadOrTrim audio, Inr (RAudio audio')),
           (LogMelSpectrogram audio', Inr (RTensor spectrogram)),
           (TensorTo spectrogram (device lib model), Inr (RTensor mel)),
           (DetectLanguage model mel, Inr (RLanguage t language_probs)),
           (Print (PrintedStr (''Detected language: '' @ language)), Inl e)]) \<or>
   (\<exists>audio audio' spectrogram mel t language_probs language e.
        py_max (dict_keys language_probs) (dict_get language_probs) = Inr language \<and>
        outcome (detect_language_and_transcribe lib model audio_file) w = Inl e \<and>
        calls (detect_language_and_transcribe lib model audio_file) w =
          [(LoadAudio audio_file, Inr (RAudio audio)),
           (PadOrTrim audio, Inr (RAudio audio')),
           (LogMelSpectrogram audio', Inr (RTensor spectrogram)),
           (TensorTo spectrogram (device lib model), Inr (RTensor mel)),
           (DetectLanguage model mel, Inr (RLanguage t language_probs)),
           (Print (PrintedStr (''Detected language: '' @ language)), Inr RNone),
           (DecodingOptions (Some language) ''transcribe'', Inr (ROptions \<lparr>opt_language = Some language, opt_task = ''transcribe''\<rparr>)),
           (Decode model mel
             \<lparr>opt_language = Some language, opt_task = ''transcribe''\<rparr>, Inl e)]) \<or>
   (\<exists>audio audio' spectrogram mel t language_probs language result e.
        py_max (dict_keys language_probs) (dict_get language_probs) = Inr language \<and>
        outcome (detect_language_and_transcribe lib model audio_file) w = Inl e \<and>
        calls (detect_language_and_transcribe lib model audio_file) w =
          [(LoadAudio audio_file, Inr (RAudio audio)),
           (PadOrTrim audio, Inr (RAudio audio')),
           (LogMelSpectrogram audio', Inr (RTensor spectrogram)),
           (TensorTo spectrogram (device lib model), Inr (RTensor mel)),
           (DetectLanguage model mel, Inr (RLanguage t language_probs)),
           (Print (PrintedStr (''Detected language: '' @ language)), Inr RNone),
           (DecodingOptions (Some language) ''transcribe'', Inr (ROptions \<lparr>opt_language = Some language, opt_task = ''transcribe''\<rparr>)),
           (Decode model mel
             \<lparr>opt_language = Some language, opt_task = ''transcribe''\<rparr>, Inr (RDecoding result)),
           (Print (PrintedDecoding result), Inl e)]) \<or>
   (\<exists>audio audio' spectrogram mel t language_probs language result.
        py_max (dict_keys language_probs) (dict_get language_probs) = Inr language \<and>
        outcome (detect_language_and_transcribe lib model audio_file) w = Inr (dr_text result) \<and>
        calls (detect_language_and_transcribe lib model audio_file) w =
          [(LoadAudio audio_file, Inr (RAudio audio)),
           (PadOrTrim audio, Inr (RAudio audio')),
           (LogMelSpectrogram audio', Inr (RTensor spectrogram)),
           (TensorTo spectrogram (device lib model), Inr (RTensor mel)),
           (DetectLanguage model mel, Inr (RLanguage t language_probs)),
           (Print (PrintedStr (''Detected language: '' @ language)), Inr RNone),
           (DecodingOptions (Some language) ''transcribe'', Inr (ROptions \<lparr>opt_language = Some language, opt_task = ''transcribe''\<rparr>)),
           (Decode model mel
             \<lparr>opt_language = Some language, opt_task = ''transcribe''\<rparr>, Inr (RDecoding result)),
           (Print (PrintedDecoding result), Inr RNone)])"
  by (auto simp add: script_defs prog_defs split: sum.split prod.split)

lemma downloaded_multiple_calls:
  "calls (multiple_languages_script sample_library) downloaded_world =
   [(Import ''whisper'', Inr RNone), (Import ''urllib.request'', Inr RNone),
    (UrlRetrieve AUDIO_URL_multiple_languages AUDIO_FILE_multiple_languages, Inr RNone),
    (LoadModel ''medium'', Inr (RModel ''medium'')),
    (Transcribe ''medium'' AUDIO_FILE_multiple_languages
       [(''verbose'', KwBool True), (''language'', KwStr ''nl''), (''task'', KwStr ''translate'')],
       Inr (RResult [(''text'', PyStr ''hello world''), (''segments'', PySegments [0, 1]),
                     (''language'', PyStr ''nl'')])),
    (Print (PrintedVal (PyStr ''hello world'')), Inr RNone)]"
  by (simp add: script_defs prog_defs sample_defs)

lemma downloaded_multiple_outcome:
  "outcome (multiple_languages_script sample_library) downloaded_world = Inr ()"
  by (simp add: script_defs prog_defs sample_defs)

lemma downloaded_english_calls:
  "calls (english_only_script sample_library) downloaded_world =
   [(Import ''whisper'', Inr RNone), (Import ''urllib.request'', Inr RNone),
    (LoadModel ''medium.en'', Inr (RModel ''medium.en'')),
    (UrlRetrieve AUDIO_URL_english_only AUDIO_FILE_english_only, Inr RNone),
    (Transcribe ''medium.en'' AUDIO_FILE_english_only [],
       Inr (RResult [(''text'', PyStr ''hallo wereld''), (''segments'', PySegments [0, 1]),
                     (''language'', PyStr ''nl'')])),
    (Print (PrintedResult [(''text'', PyStr ''hallo wereld''), (''segments'', PySegments [0, 1]),
                     (''language'', PyStr ''nl'')]), Inr RNone)]"
  by (simp add: script_defs prog_defs sample_defs)

lemma downloaded_get_transcription_outcome:
  "outcome (get_transcription sample_library ''medium.en'' AUDIO_FILE_multiple_languages)
     downloaded_world =
   Inr [(''text'', PyStr ''hallo wereld''), (''segments'', PySegments [0, 1]),
        (''language'', PyStr ''nl'')]"
  by (simp add: script_defs prog_defs sample_defs)

lemma sample_after_imports: "after_imports sample_library w = Some w"
  by (simp add: after_imports_def sample_library_def)

lemma no_model_after_imports: "after_imports no_model_library w = Some w"
  by (simp add: after_imports_def sample_library_def no_model_library_def)

lemma no_whisper_after_imports: "after_imports no_whisper_library w = None"
  by (simp add: after_imports_def sample_library_def no_whisper_library_def)

lemma no_model_load_model:
  "fst (load_model no_model_library name w) = Inl (External ''RuntimeError'')"
  by (simp add: sample_library_def no_model_library_def)

lemma offline_english_calls:
  "calls (english_only_script sample_library) offline_world =
   [(Import ''whisper'', Inr RNone), (Import ''urllib.request'', Inr RNone),
    (LoadModel ''medium.en'', Inr (RModel ''medium.en'')),
    (UrlRetrieve AUDIO_URL_english_only AUDIO_FILE_english_only, Inl (External ''URLError''))]"
  by (simp add: script_defs prog_defs sample_defs)

lemma offline_multiple_calls_const:
  "calls (multiple_languages_script sample_library) offline_world =
   [(Import ''whisper'', Inr RNone), (Import ''urllib.request'', Inr RNone),
    (UrlRetrieve AUDIO_URL_multiple_languages AUDIO_FILE_multiple_languages,
       Inl (External ''URLError''))]"
  by (simp add: script_defs prog_defs sample_defs)

lemma sample_load_model: "load_model sample_library name w = (Inr name, w)"
  by (simp add: sample_library_def)

lemma sample_urlretrieve_offline:
  "urlretrieve sample_library url filename offline_world =
     (Inl (External ''URLError''), offline_world)"
  by (simp add: sample_library_def stdlib_urlretrieve_def offline_world_def)

lemma sample_device: "device sample_library model = ''cpu''"
  by (simp add: sample_library_def)

subsection \<open>The fetch step\<close>

text \<open>
  C2. For every source URL and destination path given to the fetch step, the fetch
  retrieves the bytes at the URL and writes them to the destination path, overwriting
  any existing file at that path. With the retrieval utility as the specification
  describes it, the call both scripts make leaves exactly the served bytes at the
  destination, whatever the file held before, touches no other file, and is recorded
  once.
\<close>

theorem fetch_writes_the_bytes_at_the_url:
  fixes lib :: "('z net_world_scheme, 'm, 'a, 'x, 'd, 'p, 's) library"
  shows
    "urlretrieve lib = stdlib_urlretrieve \<and> web (world s) url = Inr bytes \<longrightarrow>
       (\<exists>s'. urllib_request_urlretrieve lib url filename s = (Inr (), s') \<and>
          files (world s') filename = Some bytes \<and>
          (\<forall>other. other \<noteq> filename \<longrightarrow> files (world s') other = files (world s) other) \<and>
          web (world s') = web (world s) \<and>
          trace s' = trace s @ [(UrlRetrieve url filename, Inr RNone)])"
  by (simp add: urllib_request_urlretrieve_def call_def stdlib_urlretrieve_def)

theorem fetch_writes_the_bytes_at_the_url_witness:
  "urlretrieve sample_library = stdlib_urlretrieve \<and>
   web (world \<lparr>world = stale_world, trace = []\<rparr>) ''https://example.org/speech.mp3''
     = Inr ''ID3'' \<and>
   files stale_world ''speech.mp3'' = Some ''old'' \<and>
   files (world (snd (urllib_request_urlretrieve sample_library
            ''https://example.org/speech.mp3'' ''speech.mp3''
            \<lparr>world = stale_world, trace = []\<rparr>))) ''speech.mp3'' = Some ''ID3''"
  using fetch_writes_the_bytes_at_the_url
    [where lib = sample_library and s = "\<lparr>world = stale_world, trace = []\<rparr>"
       and url = "''https://example.org/speech.mp3''" and bytes = "''ID3''"
       and filename = "''speech.mp3''"]
  by (auto simp add: sample_library_def stale_world_def)

subsection \<open>Failures\<close>

text \<open>
  C3. Every failure raised inside the fetch step or the external model library
  propagates unmodified to the top level and terminates the script: in every run of
  either script and of either function, a call that raised is the last call made and the
  exception it raised is the outcome. In particular, when the download of the hard-coded
  URL raises, that exception is the outcome of the script. Nothing in the scripts catches
  or changes an exception.
\<close>

theorem failures_propagate_unmodified:
  "propagated (outcome (english_only_script lib) w) (calls (english_only_script lib) w) \<and>
   propagated (outcome (multiple_languages_script lib) w)
     (calls (multiple_languages_script lib) w) \<and>
   propagated (outcome (get_transcription lib MODEL audio_file) w)
     (calls (get_transcription lib MODEL audio_file) w) \<and>
   propagated (outcome (detect_language_and_transcribe lib model audio_file) w)
     (calls (detect_language_and_transcribe lib model audio_file) w) \<and>
   (after_imports lib w = Some wi \<and>
    fst (urlretrieve lib AUDIO_URL_multiple_languages AUDIO_FILE_multiple_languages wi) = Inl e
      \<longrightarrow> outcome (multiple_languages_script lib) w = Inl e \<and>
          calls (multiple_languages_script lib) w =
            [(Import ''whisper'', Inr RNone), (Import ''urllib.request'', Inr RNone),
             (UrlRetrieve AUDIO_URL_multiple_languages AUDIO_FILE_multiple_languages, Inl e)]) \<and>
   (after_imports lib w = Some wi \<and> load_model lib ''medium.en'' wi = (Inr MODEL, w') \<and>
    fst (urlretrieve lib AUDIO_URL_english_only AUDIO_FILE_english_only w') = Inl e
      \<longrightarrow> outcome (english_only_script lib) w = Inl e) \<and>
   ((UrlRetrieve url filename, Inl e') \<in> set (calls (multiple_languages_script lib) w)
      \<longrightarrow> outcome (multiple_languages_script lib) w = Inl e') \<and>
   ((UrlRetrieve url filename, Inl e') \<in> set (calls (english_only_script lib) w)
      \<longrightarrow> outcome (english_only_script lib) w = Inl e')"
proof (intro conjI)
  show "propagated (outcome (english_only_script lib) w) (calls (english_only_script lib) w)"
    using english_only_script_cases [of lib w] by (elim disjE exE conjE) simp_all
  show "propagated (outcome (multiple_languages_script lib) w)
     (calls (multiple_languages_script lib) w)"
    using multiple_languages_script_cases [of lib w] by (elim disjE exE conjE) simp_all
  show "propagated (outcome (get_transcription lib MODEL audio_file) w)
     (calls (get_transcription lib MODEL audio_file) w)"
    using get_transcription_cases [of lib MODEL audio_file w] by (elim disjE exE conjE) simp_all
  show "propagated (outcome (detect_language_and_transcribe lib model audio_file) w)
     (calls (detect_language_and_transcribe lib model audio_file) w)"
    using detect_language_and_transcribe_cases [of lib model audio_file w]
    by (elim disjE exE conjE) simp_all
  show "after_imports lib w = Some wi \<and>
    fst (urlretrieve lib AUDIO_URL_multiple_languages AUDIO_FILE_multiple_languages wi) = Inl e
      \<longrightarrow> outcome (multiple_languages_script lib) w = Inl e \<and>
          calls (multiple_languages_script lib) w =
            [(Import ''whisper'', Inr RNone), (Import ''urllib.request'', Inr RNone),
             (UrlRetrieve AUDIO_URL_multiple_languages AUDIO_FILE_multiple_languages, Inl e)]"
    using multiple_languages_script_cases [of lib w] by (elim disjE exE conjE) auto
  show "after_imports lib w = Some wi \<and> load_model lib ''medium.en'' wi = (Inr MODEL, w') \<and>
    fst (urlretrieve lib AUDIO_URL_english_only AUDIO_FILE_english_only w') = Inl e
      \<longrightarrow> outcome (english_only_script lib) w = Inl e"
    by (auto simp add: english_only_script_def prog_defs after_imports_def
        split: sum.splits prod.splits)
  show "(UrlRetrieve url filename, Inl e') \<in> set (calls (multiple_languages_script lib) w)
      \<longrightarrow> outcome (multiple_languages_script lib) w = Inl e'"
    using multiple_languages_script_cases [of lib w] by (elim disjE exE conjE) simp_all
  show "(UrlRetrieve url filename, Inl e') \<in> set (calls (english_only_script lib) w)
      \<longrightarrow> outcome (english_only_script lib) w = Inl e'"
    using english_only_script_cases [of lib w] by (elim disjE exE conjE) simp_all
qed

theorem failures_propagate_unmodified_witness:
  "after_imports sample_library offline_world = Some offline_world \<and>
   fst (urlretrieve sample_library AUDIO_URL_multiple_languages AUDIO_FILE_multiple_languages
          offline_world) = Inl (External ''URLError'') \<and>
   load_model sample_library ''medium.en'' offline_world = (Inr ''medium.en'', offline_world) \<and>
   fst (urlretrieve sample_library AUDIO_URL_english_only AUDIO_FILE_english_only
          offline_world) = Inl (External ''URLError'') \<and>
   (UrlRetrieve AUDIO_URL_multiple_languages AUDIO_FILE_multiple_languages,
      Inl (External ''URLError''))
     \<in> set (calls (multiple_languages_script sample_library) offline_world) \<and>
   (UrlRetrieve AUDIO_URL_english_only AUDIO_FILE_english_only, Inl (External ''URLError''))
     \<in> set (calls (english_only_script sample_library) offline_world) \<and>
   outcome (multiple_languages_script sample_library) offline_world
     = Inl (External ''URLError'') \<and>
   outcome (english_only_script sample_library) offline_world = Inl (External ''URLError'') \<and>
   propagated (Inl (External ''URLError'') :: exn + unit)
     (calls (multiple_languages_script sample_library) offline_world)"
  using failures_propagate_unmodified
    [where lib = sample_library and w = offline_world and wi = offline_world
       and w' = offline_world and MODEL = "''medium.en''" and e = "External ''URLError''"
       and e' = "External ''URLError''"
       and model = "''medium''" and audio_file = "''x.mp3''"]
  by (simp add: sample_after_imports offline_english_calls offline_multiple_calls_const
      sample_load_model sample_urlretrieve_offline)

subsection \<open>Fetcher and Transcriber\<close>

text \<open>
  C4, as the code has it. In each script the download is attempted at most once, and
  \<open>transcribe\<close>, the only call that is handed the audio file path, is made only after the
  download to that same path has returned. In \<open>1_multiple_languages.py\<close> only the two
  imports precede the download: no Transcriber call does, and the download runs exactly
  when both imports return. In \<open>1_basic_call_english_only.py\<close> the first call after the
  imports is \<open>whisper.load_model("medium.en")\<close>: in every run that gets past the imports a
  Transcriber call precedes the download, and the download runs exactly when the imports
  and the model load return.
\<close>

theorem fetch_precedes_use_of_the_file:
  "length (fetches (calls (english_only_script lib) w)) \<le> 1 \<and>
   length (fetches (calls (multiple_languages_script lib) w)) \<le> 1 \<and>
   length (fetches (calls (english_only_script lib) w)) =
     (case after_imports lib w of
        None \<Rightarrow> 0
      | Some w2 \<Rightarrow> (case fst (load_model lib ''medium.en'' w2) of Inl e \<Rightarrow> 0 | Inr MODEL \<Rightarrow> 1)) \<and>
   length (fetches (calls (multiple_languages_script lib) w)) =
     (case after_imports lib w of None \<Rightarrow> 0 | Some w2 \<Rightarrow> 1) \<and>
   fetched_before_use [] (calls (english_only_script lib) w) \<and>
   fetched_before_use [] (calls (multiple_languages_script lib) w) \<and>
   \<not> transcriber_before_fetch (map fst (calls (multiple_languages_script lib) w)) \<and>
   prefix (takeWhile (\<lambda>c. \<not> is_fetch c) (map fst (calls (multiple_languages_script lib) w)))
     [Import ''whisper'', Import ''urllib.request''] \<and>
   (case after_imports lib w of
      None \<Rightarrow> \<not> transcriber_before_fetch (map fst (calls (english_only_script lib) w))
    | Some w2 \<Rightarrow>
        transcriber_before_fetch (map fst (calls (english_only_script lib) w)) \<and>
        prefix [Import ''whisper'', Import ''urllib.request'', LoadModel ''medium.en'']
          (map fst (calls (english_only_script lib) w)))"
proof (intro conjI)
  show "length (fetches (calls (english_only_script lib) w)) \<le> 1"
    using english_only_script_cases [of lib w]
    by (elim disjE exE conjE) (simp_all add: fetches_def)
  show "length (fetches (calls (multiple_languages_script lib) w)) \<le> 1"
    using multiple_languages_script_cases [of lib w]
    by (elim disjE exE conjE) (simp_all add: fetches_def)
  show "length (fetches (calls (english_only_script lib) w)) =
     (case after_imports lib w of
        None \<Rightarrow> 0
      | Some w2 \<Rightarrow> (case fst (load_model lib ''medium.en'' w2) of Inl e \<Rightarrow> 0 | Inr MODEL \<Rightarrow> 1))"
    using english_only_script_cases [of lib w]
    by (elim disjE exE conjE) (simp_all add: fetches_def)
  show "length (fetches (calls (multiple_languages_script lib) w)) =
     (case after_imports lib w of None \<Rightarrow> 0 | Some w2 \<Rightarrow> 1)"
    using multiple_languages_script_cases [of lib w]
    by (elim disjE exE conjE) (simp_all add: fetches_def)
  show "fetched_before_use [] (calls (english_only_script lib) w)"
    using english_only_script_cases [of lib w] by (elim disjE exE conjE) simp_all
  show "fetched_before_use [] (calls (multiple_languages_script lib) w)"
    using multiple_languages_script_cases [of lib w] by (elim disjE exE conjE) simp_all
  show "\<not> transcriber_before_fetch (map fst (calls (multiple_languages_script lib) w))"
    using multiple_languages_script_cases [of lib w] by (elim disjE exE conjE) simp_all
  show "prefix (takeWhile (\<lambda>c. \<not> is_fetch c) (map fst (calls (multiple_languages_script lib) w)))
     [Import ''whisper'', Import ''urllib.request'']"
    using multiple_languages_script_cases [of lib w] by (elim disjE exE conjE) simp_all
  show "case after_imports lib w of
      None \<Rightarrow> \<not> transcriber_before_fetch (map fst (calls (english_only_script lib) w))
    | Some w2 \<Rightarrow>
        transcriber_before_fetch (map fst (calls (english_only_script lib) w)) \<and>
        prefix [Import ''whisper'', Import ''urllib.request'', LoadModel ''medium.en'']
          (map fst (calls (english_only_script lib) w))"
    using english_only_script_cases [of lib w] by (elim disjE exE conjE) simp_all
qed

theorem fetch_precedes_use_of_the_file_witness:
  "after_imports no_model_library online_world = Some online_world \<and>
   after_imports no_whisper_library online_world = None \<and>
   length (fetches (calls (english_only_script no_model_library) online_world)) = 0 \<and>
   length (fetches (calls (multiple_languages_script no_model_library) online_world)) = 1 \<and>
   length (fetches (calls (multiple_languages_script no_whisper_library) online_world)) = 0 \<and>
   transcriber_before_fetch
     (map fst (calls (english_only_script no_model_library) online_world)) \<and>
   \<not> transcriber_before_fetch
     (map fst (calls (english_only_script no_whisper_library) online_world))"
  using fetch_precedes_use_of_the_file [where lib = no_model_library and w = online_world]
    fetch_precedes_use_of_the_file [where lib = no_whisper_library and w = online_world]
  by (simp add: no_model_after_imports no_whisper_after_imports no_model_load_model)

text \<open>
  C4 as stated fails: on the sample environment the English-only script loads the model,
  a Transcriber step, before it downloads anything.
\<close>

theorem model_is_loaded_before_the_fetch:
  "transcriber_before_fetch (map fst (calls (english_only_script sample_library) online_world))"
  by (simp add: sample_english_calls)

text \<open>
  C7, as the code has it. Every download either script makes is of its hard-coded URL to
  its hard-coded file name, whatever the environment does, and each script makes at most
  one. \<open>1_multiple_languages.py\<close> makes exactly one when its two imports return, and none
  when one of them raises; \<open>1_basic_call_english_only.py\<close> makes exactly one when its two
  imports and \<open>whisper.load_model\<close>, which come first, return, and none when one of them
  raises. The scripts have no parameter besides the environment.
\<close>

theorem one_download_of_a_fixed_url_when_reached:
  "fetches (calls (multiple_languages_script lib) w) =
     (case after_imports lib w of
        None \<Rightarrow> []
      | Some w2 \<Rightarrow> [UrlRetrieve AUDIO_URL_multiple_languages AUDIO_FILE_multiple_languages]) \<and>
   fetches (calls (english_only_script lib) w) =
     (case after_imports lib w of
        None \<Rightarrow> []
      | Some w2 \<Rightarrow>
          (case fst (load_model lib ''medium.en'' w2) of
             Inl e \<Rightarrow> []
           | Inr MODEL \<Rightarrow> [UrlRetrieve AUDIO_URL_english_only AUDIO_FILE_english_only]))"
proof (intro conjI)
  show "fetches (calls (multiple_languages_script lib) w) =
     (case after_imports lib w of
        None \<Rightarrow> []
      | Some w2 \<Rightarrow> [UrlRetrieve AUDIO_URL_multiple_languages AUDIO_FILE_multiple_languages])"
    using multiple_languages_script_cases [of lib w]
    by (elim disjE exE conjE) (simp_all add: fetches_def)
  show "fetches (calls (english_only_script lib) w) =
     (case after_imports lib w of
        None \<Rightarrow> []
      | Some w2 \<Rightarrow>
          (case fst (load_model lib ''medium.en'' w2) of
             Inl e \<Rightarrow> []
           | Inr MODEL \<Rightarrow> [UrlRetrieve AUDIO_URL_english_only AUDIO_FILE_english_only]))"
    using english_only_script_cases [of lib w]
    by (elim disjE exE conjE) (simp_all add: fetches_def)
qed

theorem one_download_of_a_fixed_url_when_reached_witness:
  "after_imports sample_library online_world = Some online_world \<and>
   after_imports no_whisper_library online_world = None \<and>
   fetches (calls (multiple_languages_script sample_library) online_world) =
     [UrlRetrieve AUDIO_URL_multiple_languages AUDIO_FILE_multiple_languages] \<and>
   fetches (calls (english_only_script sample_library) online_world) =
     [UrlRetrieve AUDIO_URL_english_only AUDIO_FILE_english_only] \<and>
   fetches (calls (multiple_languages_script no_whisper_library) online_world) = [] \<and>
   fetches (calls (english_only_script no_whisper_library) online_world) = []"
  using one_download_of_a_fixed_url_when_reached [where lib = sample_library and w = online_world]
    one_download_of_a_fixed_url_when_reached [where lib = no_whisper_library and w = online_world]
  by (simp add: sample_after_imports no_whisper_after_imports sample_load_model)

text \<open>
  C7 as stated fails: where the model cannot be loaded, the English-only script stops
  before its download and performs no request at all.
\<close>

theorem english_only_script_may_download_nothing:
  "fetches (calls (english_only_script no_model_library) online_world) = []"
  by (simp add: no_model_english_calls fetches_def)

subsection \<open>Manual mode\<close>

text \<open>
  C5. Every invocation of \<open>detect_language_and_transcribe\<close> performs its steps in this
  order: load audio, pad-or-trim, compute the log-mel spectrogram, detect the language,
  construct the decoding options, decode. A run that an exception cuts short has made an
  initial part of that sequence, a run that returns has made all of it. The options are
  constructed with the language selected from the detected probabilities and with a task
  that is \<open>transcribe\<close> or \<open>translate\<close>, and \<open>decode\<close> receives exactly these options.
\<close>

theorem manual_pipeline_runs_in_order:
  "prefix (steps (calls (detect_language_and_transcribe lib model audio_file) w))
     [LoadAudioStep, PadOrTrimStep, SpectrogramStep, DetectLanguageStep,
      DecodingOptionsStep, DecodeStep] \<and>
   (outcome (detect_language_and_transcribe lib model audio_file) w = Inr transcript \<longrightarrow>
      steps (calls (detect_language_and_transcribe lib model audio_file) w) =
        [LoadAudioStep, PadOrTrimStep, SpectrogramStep, DetectLanguageStep,
         DecodingOptionsStep, DecodeStep]) \<and>
   ((DetectLanguage m x, Inr (RLanguage t language_probs))
        \<in> set (calls (detect_language_and_transcribe lib model audio_file) w) \<and>
    (DecodingOptions selected task, out)
        \<in> set (calls (detect_language_and_transcribe lib model audio_file) w) \<longrightarrow>
      (\<exists>language. py_max (dict_keys language_probs) (dict_get language_probs) = Inr language \<and>
         selected = Some language) \<and>
      (task = ''transcribe'' \<or> task = ''translate'')) \<and>
   ((Decode m' x' options, out')
        \<in> set (calls (detect_language_and_transcribe lib model audio_file) w) \<longrightarrow>
      (DecodingOptions (opt_language options) (opt_task options), Inr (ROptions options))
        \<in> set (calls (detect_language_and_transcribe lib model audio_file) w))"
proof (intro conjI)
  show "prefix (steps (calls (detect_language_and_transcribe lib model audio_file) w))
     [LoadAudioStep, PadOrTrimStep, SpectrogramStep, DetectLanguageStep,
      DecodingOptionsStep, DecodeStep]"
    using detect_language_and_transcribe_cases [of lib model audio_file w]
    by (elim disjE exE conjE) (simp_all add: steps_def List.map_filter_simps)
  show "outcome (detect_language_and_transcribe lib model audio_file) w = Inr transcript \<longrightarrow>
      steps (calls (detect_language_and_transcribe lib model audio_file) w) =
        [LoadAudioStep, PadOrTrimStep, SpectrogramStep, DetectLanguageStep,
         DecodingOptionsStep, DecodeStep]"
    using detect_language_and_transcribe_cases [of lib model audio_file w]
    by (elim disjE exE conjE) (simp_all add: steps_def List.map_filter_simps)
  show "(DetectLanguage m x, Inr (RLanguage t language_probs))
        \<in> set (calls (detect_language_and_transcribe lib model audio_file) w) \<and>
    (DecodingOptions selected task, out)
        \<in> set (calls (detect_language_and_transcribe lib model audio_file) w) \<longrightarrow>
      (\<exists>language. py_max (dict_keys language_probs) (dict_get language_probs) = Inr language \<and>
         selected = Some language) \<and>
      (task = ''transcribe'' \<or> task = ''translate'')"
    using detect_language_and_transcribe_selection
      [of m x t language_probs lib model audio_file w selected task out]
    by blast
  show "(Decode m' x' options, out')
        \<in> set (calls (detect_language_and_transcribe lib model audio_file) w) \<longrightarrow>
      (DecodingOptions (opt_language options) (opt_task options), Inr (ROptions options))
        \<in> set (calls (detect_language_and_transcribe lib model audio_file) w)"
    using detect_language_and_transcribe_cases [of lib model audio_file w]
    by (elim disjE exE conjE) auto
qed

theorem manual_pipeline_runs_in_order_witness:
  "outcome (detect_language_and_transcribe sample_library ''medium''
              AUDIO_FILE_multiple_languages) downloaded_world = Inr ''hallo wereld'' \<and>
   steps (calls (detect_language_and_transcribe sample_library ''medium''
              AUDIO_FILE_multiple_languages) downloaded_world) =
     [LoadAudioStep, PadOrTrimStep, SpectrogramStep, DetectLanguageStep,
      DecodingOptionsStep, DecodeStep] \<and>
   (DetectLanguage ''medium'' [74, 69],
      Inr (RLanguage [50259] [(''en'', 1 / 10), (''nl'', 7 / 10), (''de'', 1 / 5)]))
     \<in> set (calls (detect_language_and_transcribe sample_library ''medium''
                     AUDIO_FILE_multiple_languages) downloaded_world) \<and>
   (DecodingOptions (Some ''nl'') ''transcribe'',
      Inr (ROptions \<lparr>opt_language = Some ''nl'', opt_task = ''transcribe''\<rparr>))
     \<in> set (calls (detect_language_and_transcribe sample_library ''medium''
                     AUDIO_FILE_multiple_languages) downloaded_world) \<and>
   (Decode ''medium'' [74, 69] \<lparr>opt_language = Some ''nl'', opt_task = ''transcribe''\<rparr>,
      Inr (RDecoding \<lparr>dr_language = ''nl'', dr_tokens = [], dr_text = ''hallo wereld''\<rparr>))
     \<in> set (calls (detect_language_and_transcribe sample_library ''medium''
                     AUDIO_FILE_multiple_languages) downloaded_world) \<and>
   py_max (dict_keys [(''en'', 1 / 10), (''nl'', 7 / 10), (''de'', 1 / 5 :: real)])
     (dict_get [(''en'', 1 / 10), (''nl'', 7 / 10), (''de'', 1 / 5 :: real)]) = Inr ''nl''"
  using manual_pipeline_runs_in_order
    [where lib = sample_library and model = "''medium''"
       and audio_file = AUDIO_FILE_multiple_languages and w = downloaded_world
       and transcript = "''hallo wereld''"
       and m = "''medium''" and x = "[74, 69]" and t = "[50259]"
       and language_probs = "[(''en'', 1 / 10), (''nl'', 7 / 10), (''de'', 1 / 5 :: real)]"
       and selected = "Some ''nl''" and task = "''transcribe''"
       and out = "Inr (ROptions \<lparr>opt_language = Some ''nl'', opt_task = ''transcribe''\<rparr>)"
       and m' = "''medium''" and x' = "[74, 69]"
       and options = "\<lparr>opt_language = Some ''nl'', opt_task = ''transcribe''\<rparr>"
       and out' = "Inr (RDecoding \<lparr>dr_language = ''nl'', dr_tokens = [],
                                   dr_text = ''hallo wereld''\<rparr>)"]
  by (simp add: sample_detect_calls sample_detect_outcome)

text \<open>
  C6, as the code has it. \<open>detect_language_and_transcribe\<close>, which the multi-language
  script defines, performs explicit language detection before it decodes:
  \<open>model.detect_language\<close> is called on the spectrogram that was computed and moved to
  the model's device, and \<open>decode\<close> is only called on a spectrogram whose language was
  detected. The script itself never calls the function (the call is commented out): no
  run of the script contains a language detection, and its transcription step is the
  direct call of \<open>transcribe\<close> with the language fixed to \<open>"nl"\<close>.
\<close>

theorem detection_precedes_decoding_in_manual_mode_only:
  "detection_before_transcription
     (map fst (calls (detect_language_and_transcribe lib model audio_file) w)) \<and>
   ((DetectLanguage m x, out)
        \<in> set (calls (detect_language_and_transcribe lib model audio_file) w) \<longrightarrow>
      m = model \<and>
      (\<exists>audio spectrogram.
         (LogMelSpectrogram audio, Inr (RTensor spectrogram))
            \<in> set (calls (detect_language_and_transcribe lib model audio_file) w) \<and>
         (TensorTo spectrogram (device lib model), Inr (RTensor x))
            \<in> set (calls (detect_language_and_transcribe lib model audio_file) w))) \<and>
   ((Decode m' x' options, out')
        \<in> set (calls (detect_language_and_transcribe lib model audio_file) w) \<longrightarrow>
      (\<exists>t language_probs. (DetectLanguage m' x', Inr (RLanguage t language_probs))
            \<in> set (calls (detect_language_and_transcribe lib model audio_file) w))) \<and>
   filter is_detection (map fst (calls (multiple_languages_script lib) w)) = [] \<and>
   (\<forall>ev\<in>set (calls (multiple_languages_script lib) w). \<forall>m'' audio kwargs.
      fst ev = Transcribe m'' audio kwargs \<longrightarrow>
        audio = AUDIO_FILE_multiple_languages \<and>
        kwargs = [(''verbose'', KwBool True), (''language'', KwStr ''nl''),
                  (''task'', KwStr ''translate'')])"
proof (intro conjI)
  show "detection_before_transcription
     (map fst (calls (detect_language_and_transcribe lib model audio_file) w))"
    using detect_language_and_transcribe_cases [of lib model audio_file w]
    by (elim disjE exE conjE) simp_all
  show "(DetectLanguage m x, out)
        \<in> set (calls (detect_language_and_transcribe lib model audio_file) w) \<longrightarrow>
      m = model \<and>
      (\<exists>audio spectrogram.
         (LogMelSpectrogram audio, Inr (RTensor spectrogram))
            \<in> set (calls (detect_language_and_transcribe lib model audio_file) w) \<and>
         (TensorTo spectrogram (device lib model), Inr (RTensor x))
            \<in> set (calls (detect_language_and_transcribe lib model audio_file) w))"
    using detect_language_and_transcribe_cases [of lib model audio_file w]
    by (elim disjE exE conjE) auto
  show "(Decode m' x' options, out')
        \<in> set (calls (detect_language_and_transcribe lib model audio_file) w) \<longrightarrow>
      (\<exists>t language_probs. (DetectLanguage m' x', Inr (RLanguage t language_probs))
            \<in> set (calls (detect_language_and_transcribe lib model audio_file) w))"
    using detect_language_and_transcribe_cases [of lib model audio_file w]
    by (elim disjE exE conjE) auto
  show "filter is_detection (map fst (calls (multiple_languages_script lib) w)) = []"
    using multiple_languages_script_cases [of lib w]
    by (elim disjE exE conjE) simp_all
  show "\<forall>ev\<in>set (calls (multiple_languages_script lib) w). \<forall>m'' audio kwargs.
      fst ev = Transcribe m'' audio kwargs \<longrightarrow>
        audio = AUDIO_FILE_multiple_languages \<and>
        kwargs = [(''verbose'', KwBool True), (''language'', KwStr ''nl''),
                  (''task'', KwStr ''translate'')]"
    using multiple_languages_script_cases [of lib w]
    by (elim disjE exE conjE) auto
qed

theorem detection_precedes_decoding_in_manual_mode_only_witness:
  "(DetectLanguage ''medium'' [74, 69],
      Inr (RLanguage [50259] [(''en'', 1 / 10), (''nl'', 7 / 10), (''de'', 1 / 5)]))
     \<in> set (calls (detect_language_and_transcribe sample_library ''medium''
                     AUDIO_FILE_multiple_languages) downloaded_world) \<and>
   (Decode ''medium'' [74, 69] \<lparr>opt_language = Some ''nl'', opt_task = ''transcribe''\<rparr>,
      Inr (RDecoding \<lparr>dr_language = ''nl'', dr_tokens = [], dr_text = ''hallo wereld''\<rparr>))
     \<in> set (calls (detect_language_and_transcribe sample_library ''medium''
                     AUDIO_FILE_multiple_languages) downloaded_world) \<and>
   (TensorTo [74, 69] ''cpu'', Inr (RTensor [74, 69]))
     \<in> set (calls (detect_language_and_transcribe sample_library ''medium''
                     AUDIO_FILE_multiple_languages) downloaded_world) \<and>
   (Transcribe ''medium'' AUDIO_FILE_multiple_languages
       [(''verbose'', KwBool True), (''language'', KwStr ''nl''), (''task'', KwStr ''translate'')],
       Inr (RResult [(''text'', PyStr ''hello world''), (''segments'', PySegments [0, 1]),
                     (''language'', PyStr ''nl'')]))
     \<in> set (calls (multiple_languages_script sample_library) downloaded_world) \<and>
   filter is_detection
     (map fst (calls (multiple_languages_script sample_library) downloaded_world)) = []"
  using detection_precedes_decoding_in_manual_mode_only
    [where lib = sample_library and model = "''medium''"
       and audio_file = AUDIO_FILE_multiple_languages and w = downloaded_world
       and m = "''medium''" and x = "[74, 69]"
       and out = "Inr (RLanguage [50259] [(''en'', 1 / 10), (''nl'', 7 / 10), (''de'', 1 / 5)])"
       and m' = "''medium''" and x' = "[74, 69]"
       and options = "\<lparr>opt_language = Some ''nl'', opt_task = ''transcribe''\<rparr>"
       and out' = "Inr (RDecoding \<lparr>dr_language = ''nl'', dr_tokens = [],
                                   dr_text = ''hallo wereld''\<rparr>)"]
  by (simp add: sample_detect_calls downloaded_multiple_calls sample_device)

text \<open>
  C6 as stated fails: a complete run of the multi-language script reaches its
  transcription step without any language detection before it.
\<close>

theorem multiple_languages_script_skips_detection:
  "\<not> detection_before_transcription
       (map fst (calls (multiple_languages_script sample_library) online_world))"
  by (simp add: sample_multiple_calls)

text \<open>
  C10. Every call of \<open>detect_language_and_transcribe\<close> constructs its decoding options
  with the task \<open>transcribe\<close> and decodes with it, so manual mode never asks for a
  translation; neither does the English-only script. In the multi-language script the
  only call that asks for a translation is the direct call of \<open>transcribe\<close> at module
  level, on the downloaded file, with the language fixed to \<open>"nl"\<close>; no language is
  detected there, and every run that completes has made that call.
\<close>

theorem manual_mode_never_translates:
  "(\<forall>ev\<in>set (calls (detect_language_and_transcribe lib model audio_file) w).
      \<not> requests_translation (fst ev) \<and>
      (\<forall>language task. fst ev = DecodingOptions language task \<longrightarrow> task = ''transcribe'') \<and>
      (\<forall>m x options. fst ev = Decode m x options \<longrightarrow> opt_task options = ''transcribe'')) \<and>
   (\<forall>ev\<in>set (calls (english_only_script lib) w). \<not> requests_translation (fst ev)) \<and>
   (\<forall>ev\<in>set (calls (multiple_languages_script lib) w).
      \<not> is_detection (fst ev) \<and>
      (requests_translation (fst ev) \<longrightarrow>
         (\<exists>m. fst ev = Transcribe m AUDIO_FILE_multiple_languages
                  [(''verbose'', KwBool True), (''language'', KwStr ''nl''),
                   (''task'', KwStr ''translate'')]))) \<and>
   (outcome (multiple_languages_script lib) w = Inr () \<longrightarrow>
      translation_requested (calls (multiple_languages_script lib) w))"
proof (intro conjI)
  show "\<forall>ev\<in>set (calls (detect_language_and_transcribe lib model audio_file) w).
      \<not> requests_translation (fst ev) \<and>
      (\<forall>language task. fst ev = DecodingOptions language task \<longrightarrow> task = ''transcribe'') \<and>
      (\<forall>m x options. fst ev = Decode m x options \<longrightarrow> opt_task options = ''transcribe'')"
    using detect_language_and_transcribe_cases [of lib model audio_file w]
    by (elim disjE exE conjE) simp_all
  show "\<forall>ev\<in>set (calls (english_only_script lib) w). \<not> requests_translation (fst ev)"
    using english_only_script_cases [of lib w]
    by (elim disjE exE conjE) simp_all
  show "\<forall>ev\<in>set (calls (multiple_languages_script lib) w).
      \<not> is_detection (fst ev) \<and>
      (requests_translation (fst ev) \<longrightarrow>
         (\<exists>m. fst ev = Transcribe m AUDIO_FILE_multiple_languages
                  [(''verbose'', KwBool True), (''language'', KwStr ''nl''),
                   (''task'', KwStr ''translate'')]))"
    using multiple_languages_script_cases [of lib w]
    by (elim disjE exE conjE) simp_all
  show "outcome (multiple_languages_script lib) w = Inr () \<longrightarrow>
      translation_requested (calls (multiple_languages_script lib) w)"
    using multiple_languages_script_cases [of lib w]
    by (elim disjE exE conjE) (simp_all add: translation_requested_def)
qed

theorem manual_mode_never_translates_witness:
  "(DecodingOptions (Some ''nl'') ''transcribe'',
      Inr (ROptions \<lparr>opt_language = Some ''nl'', opt_task = ''transcribe''\<rparr>))
     \<in> set (calls (detect_language_and_transcribe sample_library ''medium''
                     AUDIO_FILE_multiple_languages) downloaded_world) \<and>
   (LoadModel ''medium.en'', Inr (RModel ''medium.en''))
     \<in> set (calls (english_only_script sample_library) downloaded_world) \<and>
   (Transcribe ''medium'' AUDIO_FILE_multiple_languages
       [(''verbose'', KwBool True), (''language'', KwStr ''nl''), (''task'', KwStr ''translate'')],
       Inr (RResult [(''text'', PyStr ''hello world''), (''segments'', PySegments [0, 1]),
                     (''language'', PyStr ''nl'')]))
     \<in> set (calls (multiple_languages_script sample_library) downloaded_world) \<and>
   outcome (multiple_languages_script sample_library) downloaded_world = Inr () \<and>
   translation_requested (calls (multiple_languages_script sample_library) downloaded_world) \<and>
   \<not> translation_requested (calls (detect_language_and_transcribe sample_library ''medium''
                     AUDIO_FILE_multiple_languages) downloaded_world)"
  using manual_mode_never_translates
    [where lib = sample_library and model = "''medium''"
       and audio_file = AUDIO_FILE_multiple_languages and w = downloaded_world]
  by (simp add: sample_detect_calls downloaded_multiple_calls downloaded_multiple_outcome
      downloaded_english_calls translation_requested_def)

subsection \<open>What the entry points return\<close>

text \<open>
  C8, as the code has it. \<open>get_transcription\<close> runs the library's \<open>transcribe\<close> on the
  given file with default options and returns its result unchanged, so whatever text and
  segment detail the library put there. \<open>detect_language_and_transcribe\<close> returns only the
  \<open>text\<close> field of what \<open>decode\<close> returned for the task \<open>transcribe\<close>: a string, with no
  segment detail, from a run in which no translation was requested. In the multi-language
  script the result that holds segment detail and translated text is that of the direct
  call of \<open>transcribe\<close> with the task \<open>translate\<close>, of which the script prints the entry
  \<open>"text"\<close>.
\<close>

theorem entry_points_return_what_the_library_returned:
  "(outcome (get_transcription lib MODEL audio_file) w = Inr result \<longrightarrow>
      fst (transcribe lib MODEL audio_file [] w) = Inr result \<and>
      calls (get_transcription lib MODEL audio_file) w =
        [(Transcribe MODEL audio_file [], Inr (RResult result)),
         (Print (PrintedResult result), Inr RNone)]) \<and>
   (outcome (detect_language_and_transcribe lib model audio_file) w = Inr transcript \<longrightarrow>
      (\<exists>mel language decoded.
         (Decode model mel \<lparr>opt_language = Some language, opt_task = ''transcribe''\<rparr>,
            Inr (RDecoding decoded))
           \<in> set (calls (detect_language_and_transcribe lib model audio_file) w) \<and>
         transcript = dr_text decoded) \<and>
      \<not> translation_requested (calls (detect_language_and_transcribe lib model audio_file) w)) \<and>
   (outcome (multiple_languages_script lib) w = Inr () \<longrightarrow>
      (\<exists>m translated shown.
         (Transcribe m AUDIO_FILE_multiple_languages
            [(''verbose'', KwBool True), (''language'', KwStr ''nl''),
             (''task'', KwStr ''translate'')], Inr (RResult translated))
           \<in> set (calls (multiple_languages_script lib) w) \<and>
         dict_getitem translated ''text'' = Inr shown \<and>
         (Print (PrintedVal shown), Inr RNone)
           \<in> set (calls (multiple_languages_script lib) w)))"
proof (intro conjI)
  show "outcome (get_transcription lib MODEL audio_file) w = Inr result \<longrightarrow>
      fst (transcribe lib MODEL audio_file [] w) = Inr result \<and>
      calls (get_transcription lib MODEL audio_file) w =
        [(Transcribe MODEL audio_file [], Inr (RResult result)),
         (Print (PrintedResult result), Inr RNone)]"
    using get_transcription_cases [of lib MODEL audio_file w]
    by (elim disjE exE conjE) simp_all
  show "outcome (detect_language_and_transcribe lib model audio_file) w = Inr transcript \<longrightarrow>
      (\<exists>mel language decoded.
         (Decode model mel \<lparr>opt_language = Some language, opt_task = ''transcribe''\<rparr>,
            Inr (RDecoding decoded))
           \<in> set (calls (detect_language_and_transcribe lib model audio_file) w) \<and>
         transcript = dr_text decoded) \<and>
      \<not> translation_requested (calls (detect_language_and_transcribe lib model audio_file) w)"
    using detect_language_and_transcribe_cases [of lib model audio_file w]
    by (elim disjE exE conjE) (auto simp: translation_requested_def)
  show "outcome (multiple_languages_script lib) w = Inr () \<longrightarrow>
      (\<exists>m translated shown.
         (Transcribe m AUDIO_FILE_multiple_languages
            [(''verbose'', KwBool True), (''language'', KwStr ''nl''),
             (''task'', KwStr ''translate'')], Inr (RResult translated))
           \<in> set (calls (multiple_languages_script lib) w) \<and>
         dict_getitem translated ''text'' = Inr shown \<and>
         (Print (PrintedVal shown), Inr RNone)
           \<in> set (calls (multiple_languages_script lib) w))"
    using multiple_languages_script_cases [of lib w]
    by (elim disjE exE conjE) auto
qed

theorem entry_points_return_what_the_library_returned_witness:
  "outcome (get_transcription sample_library ''medium.en'' AUDIO_FILE_multiple_languages)
     downloaded_world =
     Inr [(''text'', PyStr ''hallo wereld''), (''segments'', PySegments [0, 1]),
          (''language'', PyStr ''nl'')] \<and>
   fst (transcribe sample_library ''medium.en'' AUDIO_FILE_multiple_languages []
          downloaded_world) =
     Inr [(''text'', PyStr ''hallo wereld''), (''segments'', PySegments [0, 1]),
          (''language'', PyStr ''nl'')] \<and>
   outcome (detect_language_and_transcribe sample_library ''medium''
              AUDIO_FILE_multiple_languages) downloaded_world = Inr ''hallo wereld'' \<and>
   \<not> translation_requested
       (calls (detect_language_and_transcribe sample_library ''medium''
                 AUDIO_FILE_multiple_languages) downloaded_world) \<and>
   outcome (multiple_languages_script sample_library) downloaded_world = Inr ()"
  using entry_points_return_what_the_library_returned
    [where lib = sample_library and MODEL = "''medium.en''" and model = "''medium''"
       and audio_file = AUDIO_FILE_multiple_languages and w = downloaded_world
       and result = "[(''text'', PyStr ''hallo wereld''), (''segments'', PySegments [0, 1]),
                      (''language'', PyStr ''nl'')]"
       and transcript = "''hallo wereld''"]
  by (simp add: downloaded_get_transcription_outcome downloaded_multiple_outcome
      sample_detect_outcome)

text \<open>
  C8 as stated fails for the multi-language entry point: on the sample environment, where
  a translation would read \<open>hello world\<close>, the function returns the bare string
  \<open>hallo wereld\<close> and has asked for no translation.
\<close>

theorem manual_mode_returns_only_untranslated_text:
  "outcome (detect_language_and_transcribe sample_library ''medium''
              AUDIO_FILE_multiple_languages) downloaded_world = Inr ''hallo wereld'' \<and>
   sample_text ''translate'' = ''hello world'' \<and>
   \<not> translation_requested
       (calls (detect_language_and_transcribe sample_library ''medium''
                 AUDIO_FILE_multiple_languages) downloaded_world)"
  by (simp add: sample_detect_outcome sample_detect_calls translation_requested_def
      sample_text_def)

end
